theory Spec2Isabelle
  imports Main "HOL-Library.AList"
begin

section \<open>Values, identifiers and documents\<close>

text \<open>
  The data-access layer of \<^verbatim>\<open>src/mongodb/crud.ts\<close> and the connection manager of
  \<^verbatim>\<open>src/mongodb/connection.ts\<close> are embedded as HOL functions. A JavaScript object with
  string keys is an association list, which keeps the insertion order of its keys.
  An \<^verbatim>\<open>ObjectId\<close> is represented by its 24-digit hexadecimal rendering.
\<close>

datatype ObjectId = ObjectId string

text \<open>\<^verbatim>\<open>export type IdType = ObjectId | string\<close>\<close>

datatype IdType = OidId ObjectId | StrId string

datatype val = VStr string | VNum int | VBool bool | VOid ObjectId | VNull

type_synonym doc = "(string \<times> val) list"

text \<open>
  A thrown JavaScript value: an \<^verbatim>\<open>Error\<close> with its message, or any other value, kept
  as the text \<^verbatim>\<open>String(value)\<close> gives for it.
\<close>

datatype exn = Error string | NonError string

text \<open>\<^verbatim>\<open>error instanceof Error ? error.message : String(error)\<close>\<close>

fun exn_text :: "exn \<Rightarrow> string" where
  "exn_text (Error m) = m"
| "exn_text (NonError t) = t"

text \<open>
  The driver's \<^verbatim>\<open>ObjectId.isValid\<close> and \<^verbatim>\<open>new ObjectId(s)\<close> on a string: the canonical
  fixed-length encoding is 24 hexadecimal digits, and the constructed identifier renders
  in lower case.
\<close>

definition is_hex :: "char \<Rightarrow> bool" where
  "is_hex c = (c \<in> set ''0123456789abcdefABCDEF'')"

definition ObjectId_isValid :: "string \<Rightarrow> bool" where
  "ObjectId_isValid s = (length s = 24 \<and> list_all is_hex s)"

definition hex_lower :: "char \<Rightarrow> char" where
  "hex_lower c =
     (if c = CHR ''A'' then CHR ''a'' else if c = CHR ''B'' then CHR ''b''
      else if c = CHR ''C'' then CHR ''c'' else if c = CHR ''D'' then CHR ''d''
      else if c = CHR ''E'' then CHR ''e'' else if c = CHR ''F'' then CHR ''f'' else c)"

definition new_ObjectId :: "string \<Rightarrow> ObjectId" where
  "new_ObjectId s = ObjectId (map hex_lower s)"

text \<open>The text a template literal \<^verbatim>\<open>${id}\<close> produces.\<close>

fun id_text :: "IdType \<Rightarrow> string" where
  "id_text (StrId s) = s"
| "id_text (OidId (ObjectId h)) = h"

fun id_val :: "IdType \<Rightarrow> val" where
  "id_val (StrId s) = VStr s"
| "id_val (OidId oid) = VOid oid"

text \<open>\<^verbatim>\<open>Array.prototype.join\<close> on strings.\<close>

fun join :: "string \<Rightarrow> string list \<Rightarrow> string" where
  "join sep [] = []"
| "join sep [x] = x"
| "join sep (x # y # ys) = x @ sep @ join sep (y # ys)"

section \<open>The connection manager (connection.ts)\<close>

record MongoConnectionConfig =
  uri :: string
  dbName :: string
  options :: doc

text \<open>\<^verbatim>\<open>Partial<MongoConnectionConfig>\<close>: every field may be absent.\<close>

record PartialConfig =
  p_uri :: "string option"
  p_dbName :: "string option"
  p_options :: "doc option"

text \<open>The two environment variables the constructor reads.\<close>

record process_env =
  MONGODB_URI :: "string option"
  MONGODB_DB_NAME :: "string option"

text \<open>
  A \<^verbatim>\<open>MongoClient\<close> object is identified by a number, fresh at each \<^verbatim>\<open>new MongoClient\<close>.
  \<^verbatim>\<open>client.db(name)\<close> is the handle of database \<open>name\<close> through that client, and
  \<^verbatim>\<open>db.collection(name)\<close> the handle of a collection through that database handle.
\<close>

record Db =
  db_client :: nat
  db_name :: string

record Collection =
  coll_db :: Db
  collectionName :: string

record MongoConnectionManager =
  client :: "nat option"
  db :: "Db option"
  config :: MongoConnectionConfig
  isConnected :: bool
  isConnecting :: bool

text \<open>\<^verbatim>\<open>a || b || c\<close> on strings: the first operand that is defined and not empty.\<close>

definition or_else :: "string option \<Rightarrow> string option \<Rightarrow> string \<Rightarrow> string" where
  "or_else a b c =
     (case a of
        Some s \<Rightarrow> if s \<noteq> [] then s else (case b of Some t \<Rightarrow> if t \<noteq> [] then t else c | None \<Rightarrow> c)
      | None \<Rightarrow> (case b of Some t \<Rightarrow> if t \<noteq> [] then t else c | None \<Rightarrow> c))"

text \<open>Object spread \<^verbatim>\<open>{...base, ...over}\<close>: later keys replace earlier ones in place.\<close>

definition spread :: "doc \<Rightarrow> doc \<Rightarrow> doc" where
  "spread base over = fold (\<lambda>(k, v). AList.update k v) over base"

definition default_options :: doc where
  "default_options =
     [(''maxPoolSize'', VNum 10), (''serverSelectionTimeoutMS'', VNum 5000),
      (''socketTimeoutMS'', VNum 45000)]"

definition new_MongoConnectionManager ::
  "process_env \<Rightarrow> PartialConfig option \<Rightarrow> MongoConnectionManager" where
  "new_MongoConnectionManager env cfg =
     \<lparr> client = None, db = None,
       config = \<lparr> uri = or_else (Option.bind cfg p_uri) (MONGODB_URI env)
                          ''mongodb://localhost:27017'',
                  dbName = or_else (Option.bind cfg p_dbName) (MONGODB_DB_NAME env) ''test'',
                  options = spread default_options
                              (case Option.bind cfg p_options of None \<Rightarrow> [] | Some os \<Rightarrow> os) \<rparr>,
       isConnected = False, isConnecting = False \<rparr>"

definition not_established :: exn where
  "not_established = Error ''MongoDB connection not established. Call connect() first.''"

definition getDb :: "MongoConnectionManager \<Rightarrow> exn + Db" where
  "getDb m =
     (case db m of
        None \<Rightarrow> Inl not_established
      | Some d \<Rightarrow> if \<not> isConnected m then Inl not_established else Inr d)"

definition getClient :: "MongoConnectionManager \<Rightarrow> exn + nat" where
  "getClient m =
     (case client m of
        None \<Rightarrow> Inl not_established
      | Some c \<Rightarrow> if \<not> isConnected m then Inl not_established else Inr c)"

definition isConnectionActive :: "MongoConnectionManager \<Rightarrow> bool" where
  "isConnectionActive m = (isConnected m \<and> client m \<noteq> None \<and> db m \<noteq> None)"

subsection \<open>The asynchronous methods, one turn of the event loop at a time\<close>

text \<open>
  \<open>connect\<close>, \<open>disconnect\<close> and the shutdown closure are \<^verbatim>\<open>async\<close> functions. JavaScript
  runs each of them without interruption from one \<^verbatim>\<open>await\<close> to the next, so a call is a
  task that moves through the states below, and the state of the process changes one
  event at a time. What the environment decides (when a caller calls, when a timer fires,
  how a promise of the driver settles, when a signal arrives) is the event.
\<close>

datatype signal = SIGINT | SIGTERM | SIGQUIT

datatype io = ClientConnect nat | ClientClose nat

datatype task =
    ConnWaiting
  | ConnAwait
  | ConnDone "exn + Db"
  | DiscAwait
  | DiscDone "exn + unit"
  | ShutAwait
  | ShutResume "exn + unit"

datatype event =
    CallConnect
  | TimerFires nat
  | ConnectSettles nat "exn option"
  | CallDisconnect
  | CloseSettles nat "exn option"
  | Signal signal

text \<open>
  The process around one manager object: \<open>client_ctor\<close> is what \<^verbatim>\<open>new MongoClient\<close> throws
  for the manager's configuration (nothing, normally), \<open>listeners\<close> has one entry for each
  \<^verbatim>\<open>process.on\<close> registration of a shutdown closure, \<open>trace\<close> records the connection
  attempts and closes issued to the driver, and \<open>exit_code\<close> is set by \<^verbatim>\<open>process.exit\<close>.
\<close>

record process =
  mgr :: MongoConnectionManager
  client_ctor :: "exn option"
  next_client :: nat
  listeners :: "signal list"
  tasks :: "task list"
  trace :: "io list"
  exit_code :: "int option"

definition connect_failed :: "exn \<Rightarrow> exn" where
  "connect_failed e = Error (''Failed to connect to MongoDB: '' @ exn_text e)"

text \<open>The \<^verbatim>\<open>TypeError\<close> of \<^verbatim>\<open>this.client.db(...)\<close> when \<^verbatim>\<open>this.client\<close> is \<^verbatim>\<open>null\<close>.\<close>

definition null_client :: exn where
  "null_client =
     Error (''Cannot read properties of null (reading '' @ [CHR 0x27] @ ''db''
            @ [CHR 0x27] @ '')'')"

definition setupShutdownHandlers :: "process \<Rightarrow> process" where
  "setupShutdownHandlers p = p \<lparr> listeners := listeners p @ [SIGINT, SIGTERM, SIGQUIT] \<rparr>"

text \<open>
  From \<^verbatim>\<open>this.isConnecting = true\<close> to \<^verbatim>\<open>await this.client.connect()\<close>: the state the
  calling task is left in, and the process.
\<close>

definition start_attempt :: "process \<Rightarrow> task \<times> process" where
  "start_attempt p =
     (let m = (mgr p) \<lparr> isConnecting := True \<rparr>
      in case client_ctor p of
           Some e \<Rightarrow>
             (ConnDone (Inl (connect_failed e)), p \<lparr> mgr := m \<lparr> isConnecting := False \<rparr> \<rparr>)
         | None \<Rightarrow>
             (ConnAwait,
              p \<lparr> mgr := m \<lparr> client := Some (next_client p) \<rparr>,
                  next_client := Suc (next_client p),
                  trace := trace p @ [ClientConnect (next_client p)] \<rparr>))"

text \<open>A call of \<open>connect\<close>, up to its first \<^verbatim>\<open>await\<close> or its return.\<close>

definition connect_enter :: "process \<Rightarrow> task \<times> process" where
  "connect_enter p =
     (case (if isConnected (mgr p) then db (mgr p) else None) of
        Some d \<Rightarrow> (ConnDone (Inr d), p)
      | None \<Rightarrow> if isConnecting (mgr p) then (ConnWaiting, p) else start_attempt p)"

text \<open>The 100 ms timer of a waiting caller fires: the loop test, then the code after the loop.\<close>

definition connect_wake :: "process \<Rightarrow> task \<times> process" where
  "connect_wake p =
     (if isConnecting (mgr p) then (ConnWaiting, p)
      else case db (mgr p) of
             Some d \<Rightarrow> (ConnDone (Inr d), p)
           | None \<Rightarrow> start_attempt p)"

text \<open>The promise of \<^verbatim>\<open>client.connect()\<close> settles: resolved (\<open>None\<close>) or rejected.\<close>

definition connect_settle :: "exn option \<Rightarrow> process \<Rightarrow> task \<times> process" where
  "connect_settle outcome p =
     (case outcome of
        Some e \<Rightarrow>
          (ConnDone (Inl (connect_failed e)), p \<lparr> mgr := (mgr p) \<lparr> isConnecting := False \<rparr> \<rparr>)
      | None \<Rightarrow>
          (case client (mgr p) of
             None \<Rightarrow>
               (ConnDone (Inl (connect_failed null_client)),
                p \<lparr> mgr := (mgr p) \<lparr> isConnecting := False \<rparr> \<rparr>)
           | Some c \<Rightarrow>
               (let d = \<lparr> db_client = c, db_name = dbName (config (mgr p)) \<rparr>
                in (ConnDone (Inr d),
                    setupShutdownHandlers
                      (p \<lparr> mgr := (mgr p) \<lparr> db := Some d, isConnected := True,
                                             isConnecting := False \<rparr> \<rparr>)))))"

text \<open>
  A call of \<open>disconnect\<close>: either it suspends at \<^verbatim>\<open>await this.client.close()\<close> (\<open>None\<close>) or,
  without a client, it has finished.
\<close>

definition disconnect_enter :: "process \<Rightarrow> (exn + unit) option \<times> process" where
  "disconnect_enter p =
     (case client (mgr p) of
        Some c \<Rightarrow> (None, p \<lparr> trace := trace p @ [ClientClose c] \<rparr>)
      | None \<Rightarrow> (Some (Inr ()), p))"

definition disconnect_settle :: "exn option \<Rightarrow> process \<Rightarrow> (exn + unit) \<times> process" where
  "disconnect_settle outcome p =
     (case outcome of
        Some e \<Rightarrow> (Inl e, p)
      | None \<Rightarrow>
          (Inr (), p \<lparr> mgr := (mgr p) \<lparr> client := None, db := None, isConnected := False \<rparr> \<rparr>))"

text \<open>
  The shutdown closure: \<^verbatim>\<open>await this.disconnect()\<close>, then \<^verbatim>\<open>process.exit(0)\<close>, or
  \<^verbatim>\<open>process.exit(1)\<close> in the \<^verbatim>\<open>catch\<close> clause. A closure whose \<open>disconnect\<close> has settled
  resumes (\<open>ShutResume\<close>) once the synchronous code of the current turn has finished.
\<close>

definition shutdown_enter :: "process \<Rightarrow> process" where
  "shutdown_enter p =
     (case disconnect_enter p of
        (None, p') \<Rightarrow> p' \<lparr> tasks := tasks p' @ [ShutAwait] \<rparr>
      | (Some r, p') \<Rightarrow> p' \<lparr> tasks := tasks p' @ [ShutResume r] \<rparr>)"

definition shutdown_code :: "exn + unit \<Rightarrow> int" where
  "shutdown_code r = (case r of Inr _ \<Rightarrow> 0 | Inl _ \<Rightarrow> 1)"

fun resumed :: "task list \<Rightarrow> (exn + unit) option" where
  "resumed [] = None"
| "resumed (ShutResume r # ts) = Some r"
| "resumed (t # ts) = resumed ts"

text \<open>The rest of the closure, once \<open>disconnect\<close> has settled with \<open>r\<close>.\<close>

definition exit_with :: "exn + unit \<Rightarrow> process \<Rightarrow> process" where
  "exit_with r p = p \<lparr> exit_code := Some (shutdown_code r) \<rparr>"

definition set_task :: "nat \<Rightarrow> task \<times> process \<Rightarrow> process" where
  "set_task i tp = (snd tp) \<lparr> tasks := (tasks (snd tp)) [i := fst tp] \<rparr>"

definition add_task :: "task \<times> process \<Rightarrow> process" where
  "add_task tp = (snd tp) \<lparr> tasks := tasks (snd tp) @ [fst tp] \<rparr>"

text \<open>
  One event. An event that names a task which is not in the state the event is about has
  no effect, and nothing happens in a process that has exited. A signal calls every
  listener registered for it, one after the other; the closures that did not have to wait
  resume after that, the first of them first.
\<close>

definition step :: "event \<Rightarrow> process \<Rightarrow> process" where
  "step ev p =
     (if exit_code p \<noteq> None then p
      else case ev of
          CallConnect \<Rightarrow> add_task (connect_enter p)
        | TimerFires i \<Rightarrow>
            if i < length (tasks p) \<and> tasks p ! i = ConnWaiting
            then set_task i (connect_wake p) else p
        | ConnectSettles i outcome \<Rightarrow>
            if i < length (tasks p) \<and> tasks p ! i = ConnAwait
            then set_task i (connect_settle outcome p) else p
        | CallDisconnect \<Rightarrow>
            (case disconnect_enter p of
               (None, p') \<Rightarrow> add_task (DiscAwait, p')
             | (Some r, p') \<Rightarrow> add_task (DiscDone r, p'))
        | CloseSettles i outcome \<Rightarrow>
            if i < length (tasks p) \<and> tasks p ! i = DiscAwait
            then (case disconnect_settle outcome p of (r, p') \<Rightarrow> set_task i (DiscDone r, p'))
            else if i < length (tasks p) \<and> tasks p ! i = ShutAwait
            then (case disconnect_settle outcome p of
                    (r, p') \<Rightarrow> exit_with r (set_task i (ShutResume r, p')))
            else p
        | Signal sg \<Rightarrow>
            (let p' = (shutdown_enter ^^ count_list (listeners p) sg) p
             in case resumed (drop (length (tasks p)) (tasks p')) of
                  None \<Rightarrow> p'
                | Some r \<Rightarrow> exit_with r p'))"

primrec run :: "event list \<Rightarrow> process \<Rightarrow> process" where
  "run [] p = p"
| "run (ev # evs) p = run evs (step ev p)"

definition new_process :: "MongoConnectionManager \<Rightarrow> process" where
  "new_process m =
     \<lparr> mgr = m, client_ctor = None, next_client = 0, listeners = [], tasks = [],
       trace = [], exit_code = None \<rparr>"

subsection \<open>The module-level singleton\<close>

text \<open>
  Manager objects live in a heap, addressed by numbers, so that ``the same manager'' is
  equality of addresses. \<open>globalConnectionManager\<close> is the module variable.
\<close>

record module_state =
  managers :: "nat \<rightharpoonup> MongoConnectionManager"
  next_addr :: nat
  globalConnectionManager :: "nat option"

definition initial_module :: module_state where
  "initial_module = \<lparr> managers = Map.empty, next_addr = 0, globalConnectionManager = None \<rparr>"

definition getConnectionManager ::
  "process_env \<Rightarrow> PartialConfig option \<Rightarrow> module_state \<Rightarrow> nat \<times> module_state" where
  "getConnectionManager env cfg st =
     (case globalConnectionManager st of
        None \<Rightarrow>
          (let a = next_addr st
           in (a, st \<lparr> managers := (managers st)(a \<mapsto> new_MongoConnectionManager env cfg),
                       next_addr := Suc a,
                       globalConnectionManager := Some a \<rparr>))
      | Some a \<Rightarrow> (a, st))"

definition resetConnectionManager :: "module_state \<Rightarrow> module_state" where
  "resetConnectionManager st = st \<lparr> globalConnectionManager := None \<rparr>"

section \<open>The CRUD engine (crud.ts)\<close>

subsection \<open>Collaborators: schema, driver, identifier generation\<close>

text \<open>
  A Zod issue, with the segments of its path already rendered as text, and the three ways
  a call of \<^verbatim>\<open>schema.parse\<close> can end: the parsed value, a \<^verbatim>\<open>ZodError\<close> carrying its
  issues, or some other thrown value.
\<close>

record issue =
  path :: "string list"
  message :: string

datatype parse_result = Parsed doc | ZodError "issue list" | OtherThrow exn

text \<open>
  The schema is a black box: \<open>parse\<close> is \<^verbatim>\<open>schema.parse\<close> and \<open>partial_parse\<close> is
  \<^verbatim>\<open>schema.partial().parse\<close>.
\<close>

record ZodSchema =
  parse :: "doc \<Rightarrow> parse_result"
  partial_parse :: "doc \<Rightarrow> parse_result"

record CrudOptions =
  useObjectId :: "bool option"
  collectionName_opt :: string

text \<open>
  A query filter is an object of field equalities (\<^verbatim>\<open>{}\<close> matches every document).
  An update payload has an optional \<^verbatim>\<open>$set\<close> section and any number of other operator
  sections (\<^verbatim>\<open>$inc\<close>, \<^verbatim>\<open>$unset\<close>, ...).
\<close>

type_synonym Filter = doc

record UpdateFilter =
  dollar_set :: "doc option"
  operators :: "(string \<times> doc) list"

text \<open>
  \<^verbatim>\<open>FindManyOptions\<close>: \<open>limit\<close> and \<open>skip\<close>, either of which may be absent, and the
  remaining driver options (sort, projection, ...), which the engine passes through.
\<close>

record FindManyOptions =
  limit :: "int option"
  skip :: "int option"
  findOptions :: doc

text \<open>The cursor \<^verbatim>\<open>collection.find\<close> returns; \<^verbatim>\<open>skip\<close> and \<^verbatim>\<open>limit\<close> configure it.\<close>

record cursor =
  cur_filter :: Filter
  cur_options :: doc
  cur_skip :: "int option"
  cur_limit :: "int option"

record InsertOneResult =
  ins_acknowledged :: bool
  insertedId :: IdType

record MongoUpdateResult =
  upd_acknowledged :: bool
  upd_modifiedCount :: int

record MongoDeleteResult =
  del_acknowledged :: bool
  del_deletedCount :: int

text \<open>
  The driver is an external collaborator. Each of its asynchronous collection methods is a
  function of the collection handle, the arguments and the server state \<open>'s\<close>; the awaited
  promise either rejects (\<open>Inl\<close>) or resolves (\<open>Inr\<close>).
\<close>

record 's driver =
  insertOne :: "Collection \<Rightarrow> doc \<Rightarrow> 's \<Rightarrow> (exn + InsertOneResult) \<times> 's"
  findOne :: "Collection \<Rightarrow> Filter \<Rightarrow> 's \<Rightarrow> (exn + doc option) \<times> 's"
  toArray :: "Collection \<Rightarrow> cursor \<Rightarrow> 's \<Rightarrow> (exn + doc list) \<times> 's"
  countDocuments :: "Collection \<Rightarrow> Filter \<Rightarrow> 's \<Rightarrow> (exn + int) \<times> 's"
  updateOne :: "Collection \<Rightarrow> Filter \<Rightarrow> UpdateFilter \<Rightarrow> 's \<Rightarrow> (exn + MongoUpdateResult) \<times> 's"
  deleteOne :: "Collection \<Rightarrow> Filter \<Rightarrow> 's \<Rightarrow> (exn + MongoDeleteResult) \<times> 's"
  deleteMany :: "Collection \<Rightarrow> Filter \<Rightarrow> 's \<Rightarrow> (exn + MongoDeleteResult) \<times> 's"

text \<open>Every driver call the engine issues is recorded, oldest first.\<close>

datatype call =
    InsertOne Collection doc
  | FindOne Collection Filter
  | ToArray Collection cursor
  | CountDocuments Collection Filter
  | UpdateOne Collection Filter UpdateFilter
  | DeleteOne Collection Filter
  | DeleteMany Collection Filter

text \<open>
  What an engine operation can reach: the manager objects, the record of driver calls and
  the server behind the driver.
\<close>

record 's world =
  mgrs :: "nat \<rightharpoonup> MongoConnectionManager"
  calls :: "call list"
  server :: 's

definition do_insertOne ::
  "'s driver \<Rightarrow> Collection \<Rightarrow> doc \<Rightarrow> 's world \<Rightarrow> (exn + InsertOneResult) \<times> 's world" where
  "do_insertOne drv c d w =
     (case insertOne drv c d (server w) of
        (r, s') \<Rightarrow> (r, w \<lparr> calls := calls w @ [InsertOne c d], server := s' \<rparr>))"

definition do_findOne ::
  "'s driver \<Rightarrow> Collection \<Rightarrow> Filter \<Rightarrow> 's world \<Rightarrow> (exn + doc option) \<times> 's world" where
  "do_findOne drv c f w =
     (case findOne drv c f (server w) of
        (r, s') \<Rightarrow> (r, w \<lparr> calls := calls w @ [FindOne c f], server := s' \<rparr>))"

definition do_toArray ::
  "'s driver \<Rightarrow> Collection \<Rightarrow> cursor \<Rightarrow> 's world \<Rightarrow> (exn + doc list) \<times> 's world" where
  "do_toArray drv c cur w =
     (case toArray drv c cur (server w) of
        (r, s') \<Rightarrow> (r, w \<lparr> calls := calls w @ [ToArray c cur], server := s' \<rparr>))"

definition do_countDocuments ::
  "'s driver \<Rightarrow> Collection \<Rightarrow> Filter \<Rightarrow> 's world \<Rightarrow> (exn + int) \<times> 's world" where
  "do_countDocuments drv c f w =
     (case countDocuments drv c f (server w) of
        (r, s') \<Rightarrow> (r, w \<lparr> calls := calls w @ [CountDocuments c f], server := s' \<rparr>))"

definition do_updateOne ::
  "'s driver \<Rightarrow> Collection \<Rightarrow> Filter \<Rightarrow> UpdateFilter \<Rightarrow> 's world
     \<Rightarrow> (exn + MongoUpdateResult) \<times> 's world" where
  "do_updateOne drv c f u w =
     (case updateOne drv c f u (server w) of
        (r, s') \<Rightarrow> (r, w \<lparr> calls := calls w @ [UpdateOne c f u], server := s' \<rparr>))"

definition do_deleteOne ::
  "'s driver \<Rightarrow> Collection \<Rightarrow> Filter \<Rightarrow> 's world \<Rightarrow> (exn + MongoDeleteResult) \<times> 's world" where
  "do_deleteOne drv c f w =
     (case deleteOne drv c f (server w) of
        (r, s') \<Rightarrow> (r, w \<lparr> calls := calls w @ [DeleteOne c f], server := s' \<rparr>))"

definition do_deleteMany ::
  "'s driver \<Rightarrow> Collection \<Rightarrow> Filter \<Rightarrow> 's world \<Rightarrow> (exn + MongoDeleteResult) \<times> 's world" where
  "do_deleteMany drv c f w =
     (case deleteMany drv c f (server w) of
        (r, s') \<Rightarrow> (r, w \<lparr> calls := calls w @ [DeleteMany c f], server := s' \<rparr>))"

text \<open>
  \<^verbatim>\<open>new ObjectId()\<close> and \<^verbatim>\<open>uuidv4()\<close> draw fresh values; a call of \<open>create\<close> is given the
  two values the generators would return.
\<close>

record entropy =
  fresh_oid :: ObjectId
  fresh_uuid :: string

subsection \<open>Result envelopes\<close>

record CreateResult =
  c_success :: bool
  c_data :: "doc option"
  c_id :: "IdType option"
  c_error :: "string option"

record UpdateResult =
  u_success :: bool
  u_data :: "doc option"
  u_modifiedCount :: int
  u_error :: "string option"

record DeleteResult =
  d_success :: bool
  d_deletedCount :: int
  d_error :: "string option"

record FindResult =
  f_success :: bool
  f_data :: "doc option"
  f_error :: "string option"

record FindManyResult =
  m_success :: bool
  m_data :: "doc list"
  m_total :: int
  m_error :: "string option"

subsection \<open>The engine\<close>

record MongoCRUD =
  collection :: Collection
  schema :: ZodSchema
  crud_options :: CrudOptions
  connectionManager :: nat

text \<open>
  The constructor reads the manager's handle once, through \<open>getDb\<close>, and keeps the
  collection handle; it throws what \<open>getDb\<close> throws. A manager address that is not in the
  heap cannot occur in the source and is treated like a manager that is not connected.
\<close>

definition new_MongoCRUD ::
  "nat \<Rightarrow> ZodSchema \<Rightarrow> CrudOptions \<Rightarrow> 's world \<Rightarrow> exn + MongoCRUD" where
  "new_MongoCRUD cm sch opts w =
     (case mgrs w cm of
        None \<Rightarrow> Inl not_established
      | Some m \<Rightarrow>
          (case getDb m of
             Inl e \<Rightarrow> Inl e
           | Inr d \<Rightarrow>
               Inr \<lparr> collection = \<lparr> coll_db = d, collectionName = collectionName_opt opts \<rparr>,
                     schema = sch, crud_options = opts, connectionManager = cm \<rparr>))"

definition generateId :: "CrudOptions \<Rightarrow> entropy \<Rightarrow> IdType" where
  "generateId opts rnd =
     (if useObjectId opts = Some True then OidId (fresh_oid rnd) else StrId (fresh_uuid rnd))"

definition validateId :: "CrudOptions \<Rightarrow> IdType \<Rightarrow> exn + IdType" where
  "validateId opts i =
     (if useObjectId opts = Some True then
        (case i of
           StrId s \<Rightarrow>
             if \<not> ObjectId_isValid s then Inl (Error (''Invalid ObjectId: '' @ s))
             else Inr (OidId (new_ObjectId s))
         | OidId oid \<Rightarrow> Inr (OidId oid))
      else Inr i)"

definition issue_text :: "issue \<Rightarrow> string" where
  "issue_text err = join ''.'' (path err) @ '': '' @ message err"

definition validateData :: "ZodSchema \<Rightarrow> doc \<Rightarrow> exn + doc" where
  "validateData sch d =
     (case parse sch d of
        Parsed t \<Rightarrow> Inr t
      | ZodError errors \<Rightarrow>
          Inl (Error (''Validation failed: '' @ join '', '' (map issue_text errors)))
      | OtherThrow e \<Rightarrow> Inl e)"

text \<open>\<^verbatim>\<open>handleError\<close> returns the message; its \<^verbatim>\<open>console.error\<close> line is not modelled.\<close>

definition handleError :: "exn \<Rightarrow> string \<Rightarrow> string" where
  "handleError e operation = exn_text e"

text \<open>The filter \<^verbatim>\<open>{ _id: validatedId }\<close>.\<close>

definition by_id :: "IdType \<Rightarrow> Filter" where
  "by_id i = [(''_id'', id_val i)]"

text \<open>
  Each public method is an \<^verbatim>\<open>async\<close> function whose whole body is a \<^verbatim>\<open>try\<close> block. The
  function with suffix \<open>_try\<close> is that block, ending in a thrown value or in the returned
  envelope; the method itself adds the \<^verbatim>\<open>catch\<close> clause. The result of a method is the
  outcome of its promise: \<open>Inl\<close> a rejection, \<open>Inr\<close> the envelope it resolves to.
\<close>

definition create_try ::
  "MongoCRUD \<Rightarrow> 's driver \<Rightarrow> entropy \<Rightarrow> doc \<Rightarrow> 's world \<Rightarrow> (exn + CreateResult) \<times> 's world" where
  "create_try eng drv rnd d w =
     (case validateData (schema eng) d of
        Inl e \<Rightarrow> (Inl e, w)
      | Inr validatedData \<Rightarrow>
          (let documentToInsert =
                 AList.update ''_id'' (id_val (generateId (crud_options eng) rnd)) validatedData
           in case do_insertOne drv (collection eng) documentToInsert w of
                (Inl e, w') \<Rightarrow> (Inl e, w')
              | (Inr result, w') \<Rightarrow>
                  if ins_acknowledged result then
                    (Inr \<lparr> c_success = True, c_data = Some documentToInsert,
                           c_id = Some (insertedId result), c_error = None \<rparr>, w')
                  else
                    (Inr \<lparr> c_success = False, c_data = None, c_id = None,
                           c_error = Some ''Insert operation was not acknowledged'' \<rparr>, w')))"

definition create ::
  "MongoCRUD \<Rightarrow> 's driver \<Rightarrow> entropy \<Rightarrow> doc \<Rightarrow> 's world \<Rightarrow> (exn + CreateResult) \<times> 's world" where
  "create eng drv rnd d w =
     (case create_try eng drv rnd d w of
        (Inl e, w') \<Rightarrow>
          (Inr \<lparr> c_success = False, c_data = None, c_id = None,
                 c_error = Some (handleError e ''create'') \<rparr>, w')
      | (Inr r, w') \<Rightarrow> (Inr r, w'))"

definition findById_try ::
  "MongoCRUD \<Rightarrow> 's driver \<Rightarrow> IdType \<Rightarrow> 's world \<Rightarrow> (exn + FindResult) \<times> 's world" where
  "findById_try eng drv i w =
     (case validateId (crud_options eng) i of
        Inl e \<Rightarrow> (Inl e, w)
      | Inr validatedId \<Rightarrow>
          (case do_findOne drv (collection eng) (by_id validatedId) w of
             (Inl e, w') \<Rightarrow> (Inl e, w')
           | (Inr document, w') \<Rightarrow>
               (case document of
                  Some d \<Rightarrow> (Inr \<lparr> f_success = True, f_data = Some d, f_error = None \<rparr>, w')
                | None \<Rightarrow>
                    (Inr \<lparr> f_success = False, f_data = None,
                           f_error = Some (''Document with id '' @ id_text i @ '' not found'') \<rparr>,
                     w'))))"

definition findById ::
  "MongoCRUD \<Rightarrow> 's driver \<Rightarrow> IdType \<Rightarrow> 's world \<Rightarrow> (exn + FindResult) \<times> 's world" where
  "findById eng drv i w =
     (case findById_try eng drv i w of
        (Inl e, w') \<Rightarrow>
          (Inr \<lparr> f_success = False, f_data = None,
                 f_error = Some (handleError e ''findById'') \<rparr>, w')
      | (Inr r, w') \<Rightarrow> (Inr r, w'))"

text \<open>
  \<open>findMany\<close>: both parameters have defaults (\<^verbatim>\<open>filter = {}\<close>, \<^verbatim>\<open>options = {}\<close>), and the
  destructuring gives \<open>limit\<close> the default 100 and \<open>skip\<close> the default 0.
\<close>

definition findMany_try ::
  "MongoCRUD \<Rightarrow> 's driver \<Rightarrow> Filter option \<Rightarrow> FindManyOptions option \<Rightarrow> 's world
     \<Rightarrow> (exn + FindManyResult) \<times> 's world" where
  "findMany_try eng drv filter_arg options_arg w =
     (let flt = (case filter_arg of None \<Rightarrow> [] | Some f \<Rightarrow> f);
          opts = (case options_arg of
                    None \<Rightarrow> \<lparr> limit = None, skip = None, findOptions = [] \<rparr>
                  | Some opt \<Rightarrow> opt);
          lim = (case limit opts of None \<Rightarrow> 100 | Some l \<Rightarrow> l);
          skp = (case skip opts of None \<Rightarrow> 0 | Some k \<Rightarrow> k);
          cursor0 = \<lparr> cur_filter = flt, cur_options = findOptions opts,
                      cur_skip = None, cur_limit = None \<rparr>;
          cursor1 = (if skp > 0 then cursor0 \<lparr> cur_skip := Some skp \<rparr> else cursor0);
          cursor2 = (if lim > 0 then cursor1 \<lparr> cur_limit := Some lim \<rparr> else cursor1)
      in case do_toArray drv (collection eng) cursor2 w of
           (Inl e, w') \<Rightarrow> (Inl e, w')
         | (Inr documents, w') \<Rightarrow>
             (case do_countDocuments drv (collection eng) flt w' of
                (Inl e, w'') \<Rightarrow> (Inl e, w'')
              | (Inr total_count, w'') \<Rightarrow>
                  (Inr \<lparr> m_success = True, m_data = documents, m_total = total_count,
                         m_error = None \<rparr>, w'')))"

definition findMany ::
  "MongoCRUD \<Rightarrow> 's driver \<Rightarrow> Filter option \<Rightarrow> FindManyOptions option \<Rightarrow> 's world
     \<Rightarrow> (exn + FindManyResult) \<times> 's world" where
  "findMany eng drv filter_arg options_arg w =
     (case findMany_try eng drv filter_arg options_arg w of
        (Inl e, w') \<Rightarrow>
          (Inr \<lparr> m_success = False, m_data = [], m_total = 0,
                 m_error = Some (handleError e ''findMany'') \<rparr>, w')
      | (Inr r, w') \<Rightarrow> (Inr r, w'))"

text \<open>The inner \<^verbatim>\<open>try\<close> of \<open>updateById\<close>: partial validation of the \<^verbatim>\<open>$set\<close> section.\<close>

definition validateSet :: "ZodSchema \<Rightarrow> doc \<Rightarrow> exn + unit" where
  "validateSet sch d =
     (case partial_parse sch d of
        Parsed t \<Rightarrow> Inr ()
      | ZodError errors \<Rightarrow>
          Inl (Error (''Update validation failed: '' @ join '', '' (map issue_text errors)))
      | OtherThrow e \<Rightarrow> Inl e)"

definition updateById_try ::
  "MongoCRUD \<Rightarrow> 's driver \<Rightarrow> IdType \<Rightarrow> UpdateFilter \<Rightarrow> 's world
     \<Rightarrow> (exn + UpdateResult) \<times> 's world" where
  "updateById_try eng drv i upd w =
     (case validateId (crud_options eng) i of
        Inl e \<Rightarrow> (Inl e, w)
      | Inr validatedId \<Rightarrow>
          (case (case dollar_set upd of
                   None \<Rightarrow> Inr ()
                 | Some d \<Rightarrow> validateSet (schema eng) d) of
             Inl e \<Rightarrow> (Inl e, w)
           | Inr _ \<Rightarrow>
               (case do_updateOne drv (collection eng) (by_id validatedId) upd w of
                  (Inl e, w') \<Rightarrow> (Inl e, w')
                | (Inr result, w') \<Rightarrow>
                    if upd_acknowledged result then
                      (case do_findOne drv (collection eng) (by_id validatedId) w' of
                         (Inl e, w'') \<Rightarrow> (Inl e, w'')
                       | (Inr updatedDocument, w'') \<Rightarrow>
                           (Inr \<lparr> u_success = True, u_data = updatedDocument,
                                  u_modifiedCount = upd_modifiedCount result,
                                  u_error = None \<rparr>, w''))
                    else
                      (Inr \<lparr> u_success = False, u_data = None, u_modifiedCount = 0,
                             u_error = Some ''Update operation was not acknowledged'' \<rparr>,
                       w'))))"

definition updateById ::
  "MongoCRUD \<Rightarrow> 's driver \<Rightarrow> IdType \<Rightarrow> UpdateFilter \<Rightarrow> 's world
     \<Rightarrow> (exn + UpdateResult) \<times> 's world" where
  "updateById eng drv i upd w =
     (case updateById_try eng drv i upd w of
        (Inl e, w') \<Rightarrow>
          (Inr \<lparr> u_success = False, u_data = None, u_modifiedCount = 0,
                 u_error = Some (handleError e ''updateById'') \<rparr>, w')
      | (Inr r, w') \<Rightarrow> (Inr r, w'))"

text \<open>The two delete methods share the shape of their result.\<close>

definition delete_outcome :: "MongoDeleteResult \<Rightarrow> DeleteResult" where
  "delete_outcome result =
     (if del_acknowledged result then
        \<lparr> d_success = True, d_deletedCount = del_deletedCount result, d_error = None \<rparr>
      else
        \<lparr> d_success = False, d_deletedCount = 0,
          d_error = Some ''Delete operation was not acknowledged'' \<rparr>)"

definition deleteById_try ::
  "MongoCRUD \<Rightarrow> 's driver \<Rightarrow> IdType \<Rightarrow> 's world \<Rightarrow> (exn + DeleteResult) \<times> 's world" where
  "deleteById_try eng drv i w =
     (case validateId (crud_options eng) i of
        Inl e \<Rightarrow> (Inl e, w)
      | Inr validatedId \<Rightarrow>
          (case do_deleteOne drv (collection eng) (by_id validatedId) w of
             (Inl e, w') \<Rightarrow> (Inl e, w')
           | (Inr result, w') \<Rightarrow> (Inr (delete_outcome result), w')))"

definition deleteById ::
  "MongoCRUD \<Rightarrow> 's driver \<Rightarrow> IdType \<Rightarrow> 's world \<Rightarrow> (exn + DeleteResult) \<times> 's world" where
  "deleteById eng drv i w =
     (case deleteById_try eng drv i w of
        (Inl e, w') \<Rightarrow>
          (Inr \<lparr> d_success = False, d_deletedCount = 0,
                 d_error = Some (handleError e ''deleteById'') \<rparr>, w')
      | (Inr r, w') \<Rightarrow> (Inr r, w'))"

definition deleteMany_try ::
  "MongoCRUD \<Rightarrow> 's driver \<Rightarrow> Filter \<Rightarrow> 's world \<Rightarrow> (exn + DeleteResult) \<times> 's world" where
  "deleteMany_try eng drv flt w =
     (case do_deleteMany drv (collection eng) flt w of
        (Inl e, w') \<Rightarrow> (Inl e, w')
      | (Inr result, w') \<Rightarrow> (Inr (delete_outcome result), w'))"

definition deleteMany ::
  "MongoCRUD \<Rightarrow> 's driver \<Rightarrow> Filter \<Rightarrow> 's world \<Rightarrow> (exn + DeleteResult) \<times> 's world" where
  "deleteMany eng drv flt w =
     (case deleteMany_try eng drv flt w of
        (Inl e, w') \<Rightarrow>
          (Inr \<lparr> d_success = False, d_deletedCount = 0,
                 d_error = Some (handleError e ''deleteMany'') \<rparr>, w')
      | (Inr r, w') \<Rightarrow> (Inr r, w'))"

definition exists_try ::
  "MongoCRUD \<Rightarrow> 's driver \<Rightarrow> IdType \<Rightarrow> 's world \<Rightarrow> (exn + bool) \<times> 's world" where
  "exists_try eng drv i w =
     (case validateId (crud_options eng) i of
        Inl e \<Rightarrow> (Inl e, w)
      | Inr validatedId \<Rightarrow>
          (case do_countDocuments drv (collection eng) (by_id validatedId) w of
             (Inl e, w') \<Rightarrow> (Inl e, w')
           | (Inr n, w') \<Rightarrow> (Inr (n > 0), w')))"

definition exists_doc ::
  "MongoCRUD \<Rightarrow> 's driver \<Rightarrow> IdType \<Rightarrow> 's world \<Rightarrow> (exn + bool) \<times> 's world" where
  "exists_doc eng drv i w =
     (case exists_try eng drv i w of
        (Inl e, w') \<Rightarrow> (Inr False, w')
      | (Inr r, w') \<Rightarrow> (Inr r, w'))"

definition count_docs ::
  "MongoCRUD \<Rightarrow> 's driver \<Rightarrow> Filter option \<Rightarrow> 's world \<Rightarrow> (exn + int) \<times> 's world" where
  "count_docs eng drv filter_arg w =
     (case do_countDocuments drv (collection eng)
             (case filter_arg of None \<Rightarrow> [] | Some f \<Rightarrow> f) w of
        (Inl e, w') \<Rightarrow> (Inr 0, w')
      | (Inr n, w') \<Rightarrow> (Inr n, w'))"

definition getCollection :: "MongoCRUD \<Rightarrow> Collection" where
  "getCollection eng = collection eng"

subsection \<open>An in-memory server behind the driver\<close>

text \<open>
  Modelled from the spec: the document-store driver is outside the repository; section 6
  of the specification gives its contract (point lookup, filtered scan with skip and limit,
  count by filter, insert, update and delete, each write reporting an acknowledgment flag
  and a count). The server below holds the documents of the engine's collection in scan
  order. \<open>fault\<close> makes every call reject, \<open>acknowledging\<close> is the flag that write
  results carry. A scan skips and limits by what the cursor has been given (a negative
  number counting as zero), and by nothing when the cursor has been given nothing. Of an update payload only the \<^verbatim>\<open>$set\<close> section
  is interpreted.
\<close>

record mem =
  docs :: "doc list"
  fault :: "exn option"
  acknowledging :: bool

definition matches :: "Filter \<Rightarrow> doc \<Rightarrow> bool" where
  "matches flt d = list_all (\<lambda>(k, v). map_of d k = Some v) flt"

definition page :: "cursor \<Rightarrow> doc list \<Rightarrow> doc list" where
  "page cur ds =
     (let skipped = (case cur_skip cur of None \<Rightarrow> ds | Some k \<Rightarrow> drop (nat k) ds)
      in case cur_limit cur of
           None \<Rightarrow> skipped
         | Some l \<Rightarrow> take (nat l) skipped)"

definition responding :: "mem \<Rightarrow> 'a \<times> mem \<Rightarrow> (exn + 'a) \<times> mem" where
  "responding s ok = (case fault s of Some e \<Rightarrow> (Inl e, s) | None \<Rightarrow> (Inr (fst ok), snd ok))"

fun update_first :: "(doc \<Rightarrow> bool) \<Rightarrow> (doc \<Rightarrow> doc) \<Rightarrow> doc list \<Rightarrow> doc list" where
  "update_first p f [] = []"
| "update_first p f (d # ds) = (if p d then f d # ds else d # update_first p f ds)"

fun delete_first :: "(doc \<Rightarrow> bool) \<Rightarrow> doc list \<Rightarrow> doc list" where
  "delete_first p [] = []"
| "delete_first p (d # ds) = (if p d then ds else d # delete_first p ds)"

definition apply_set :: "UpdateFilter \<Rightarrow> doc \<Rightarrow> doc" where
  "apply_set upd d = (case dollar_set upd of None \<Rightarrow> d | Some kvs \<Rightarrow> spread d kvs)"

definition id_of_doc :: "doc \<Rightarrow> IdType" where
  "id_of_doc d = (case map_of d ''_id'' of Some (VOid oid) \<Rightarrow> OidId oid
                  | Some (VStr s) \<Rightarrow> StrId s | _ \<Rightarrow> StrId [])"

definition mem_driver :: "mem driver" where
  "mem_driver =
     \<lparr> insertOne = (\<lambda>c d s. responding s
         (\<lparr> ins_acknowledged = acknowledging s, insertedId = id_of_doc d \<rparr>,
          s \<lparr> docs := docs s @ [d] \<rparr>)),
       findOne = (\<lambda>c flt s. responding s (find (matches flt) (docs s), s)),
       toArray = (\<lambda>c cur s. responding s
         (page cur (filter (matches (cur_filter cur)) (docs s)), s)),
       countDocuments = (\<lambda>c flt s. responding s
         (int (length (filter (matches flt) (docs s))), s)),
       updateOne = (\<lambda>c flt upd s. responding s
         (\<lparr> upd_acknowledged = acknowledging s,
            upd_modifiedCount =
              (if update_first (matches flt) (apply_set upd) (docs s) = docs s then 0 else 1) \<rparr>,
          s \<lparr> docs := update_first (matches flt) (apply_set upd) (docs s) \<rparr>)),
       deleteOne = (\<lambda>c flt s. responding s
         (\<lparr> del_acknowledged = acknowledging s,
            del_deletedCount = (if list_ex (matches flt) (docs s) then 1 else 0) \<rparr>,
          s \<lparr> docs := delete_first (matches flt) (docs s) \<rparr>)),
       deleteMany = (\<lambda>c flt s. responding s
         (\<lparr> del_acknowledged = acknowledging s,
            del_deletedCount = int (length (filter (matches flt) (docs s))) \<rparr>,
          s \<lparr> docs := filter (\<lambda>d. \<not> matches flt d) (docs s) \<rparr>)) \<rparr>"

subsection \<open>What the specification says, in its own words\<close>

text \<open>
  The page of \<open>findMany\<close> as the specification words it: \<open>limit\<close> defaults to 100, zero
  or a negative \<open>limit\<close> disables the limit, \<open>skip\<close> defaults to 0.
\<close>

definition spec_page :: "int option \<Rightarrow> int option \<Rightarrow> doc list \<Rightarrow> doc list" where
  "spec_page limit_opt skip_opt ms =
     (let l = (case limit_opt of None \<Rightarrow> 100 | Some l \<Rightarrow> l);
          k = (case skip_opt of None \<Rightarrow> 0 | Some k \<Rightarrow> k);
          after_skip = drop (nat k) ms
      in if l \<le> 0 then after_skip else take (nat l) after_skip)"

text \<open>
  The cursor of \<open>findMany\<close> as the specification words it: the filter and the remaining
  options as given, no limit on the cursor when \<open>limit\<close> (100 by default) is zero or
  negative, and nothing to skip when \<open>skip\<close> (0 by default) is zero or negative.
\<close>

definition spec_cursor :: "Filter option \<Rightarrow> FindManyOptions option \<Rightarrow> cursor" where
  "spec_cursor filter_arg options_arg =
     (let l = (case Option.bind options_arg limit of None \<Rightarrow> 100 | Some l \<Rightarrow> l);
          k = (case Option.bind options_arg skip of None \<Rightarrow> 0 | Some k \<Rightarrow> k)
      in \<lparr> cur_filter = (case filter_arg of None \<Rightarrow> [] | Some f \<Rightarrow> f),
           cur_options = (case options_arg of None \<Rightarrow> [] | Some opt \<Rightarrow> findOptions opt),
           cur_skip = (if k \<le> 0 then None else Some k),
           cur_limit = (if l \<le> 0 then None else Some l) \<rparr>)"

text \<open>
  The list of violations as the specification words it: every violation, in order, as its
  field path (the segments separated by dots), a colon and its message; the violations
  separated by commas.
\<close>

fun dotted :: "string list \<Rightarrow> string" where
  "dotted [] = []"
| "dotted [seg] = seg"
| "dotted (seg # segs) = seg @ ''.'' @ dotted segs"

definition violation_text :: "issue \<Rightarrow> string" where
  "violation_text v = dotted (path v) @ '': '' @ message v"

fun listing :: "issue list \<Rightarrow> string" where
  "listing [] = []"
| "listing [v] = violation_text v"
| "listing (v # vs) = violation_text v @ '', '' @ listing vs"

subsection \<open>A schema, two engines and a collection to run the engine on\<close>

text \<open>
  A schema in the style of the test suites: \<open>name\<close> is a required string and \<open>age\<close> a
  required number that is not negative; the partial schema checks only the fields present.
\<close>

definition user_issues :: "bool \<Rightarrow> doc \<Rightarrow> issue list" where
  "user_issues partial d =
     (case map_of d ''name'' of
        Some (VStr n) \<Rightarrow> []
      | Some v \<Rightarrow> [\<lparr> path = [''name''], message = ''Expected string'' \<rparr>]
      | None \<Rightarrow> if partial then [] else [\<lparr> path = [''name''], message = ''Required'' \<rparr>])
     @ (case map_of d ''age'' of
        Some (VNum n) \<Rightarrow>
          if n < 0
          then [\<lparr> path = [''age''], message = ''Number must be greater than or equal to 0'' \<rparr>]
          else []
      | Some v \<Rightarrow> [\<lparr> path = [''age''], message = ''Expected number'' \<rparr>]
      | None \<Rightarrow> if partial then [] else [\<lparr> path = [''age''], message = ''Required'' \<rparr>])"

definition UserSchema :: ZodSchema where
  "UserSchema =
     \<lparr> parse = (\<lambda>d. if user_issues False d = [] then Parsed d
                     else ZodError (user_issues False d)),
       partial_parse = (\<lambda>d. if user_issues True d = [] then Parsed d
                             else ZodError (user_issues True d)) \<rparr>"

definition users_of :: "nat \<Rightarrow> Collection" where
  "users_of c = \<lparr> coll_db = \<lparr> db_client = c, db_name = ''test'' \<rparr>, collectionName = ''users'' \<rparr>"

definition native_engine :: MongoCRUD where
  "native_engine =
     \<lparr> collection = users_of 0, schema = UserSchema,
       crud_options = \<lparr> useObjectId = Some True, collectionName_opt = ''users'' \<rparr>,
       connectionManager = 0 \<rparr>"

definition uuid_engine :: MongoCRUD where
  "uuid_engine =
     \<lparr> collection = users_of 0, schema = UserSchema,
       crud_options = \<lparr> useObjectId = None, collectionName_opt = ''users'' \<rparr>,
       connectionManager = 0 \<rparr>"

definition user :: "string \<Rightarrow> string \<Rightarrow> int \<Rightarrow> doc" where
  "user i n a = [(''_id'', VStr i), (''name'', VStr n), (''age'', VNum a)]"

definition three_users :: "doc list" where
  "three_users = [user ''u1'' ''Alice'' 28, user ''u2'' ''Bob'' 35, user ''u3'' ''Charlie'' 22]"

definition bad_user :: doc where
  "bad_user = [(''email'', VStr ''invalid-email''), (''age'', VNum (-5))]"

definition mem_world :: "doc list \<Rightarrow> mem world" where
  "mem_world ds =
     \<lparr> mgrs = Map.empty, calls = [],
       server = \<lparr> docs = ds, fault = None, acknowledging = True \<rparr> \<rparr>"

subsection \<open>Well-formed envelopes\<close>

text \<open>
  A success carries no error message; a failure carries a message and no data (for
  \<open>findMany\<close> the empty list, for the delete methods the count 0).
\<close>

definition create_envelope :: "CreateResult \<Rightarrow> bool" where
  "create_envelope r =
     (if c_success r then c_error r = None else c_data r = None \<and> c_error r \<noteq> None)"

definition find_envelope :: "FindResult \<Rightarrow> bool" where
  "find_envelope r =
     (if f_success r then f_error r = None else f_data r = None \<and> f_error r \<noteq> None)"

definition findMany_envelope :: "FindManyResult \<Rightarrow> bool" where
  "findMany_envelope r =
     (if m_success r then m_error r = None else m_data r = [] \<and> m_error r \<noteq> None)"

definition update_envelope :: "UpdateResult \<Rightarrow> bool" where
  "update_envelope r =
     (if u_success r then u_error r = None else u_data r = None \<and> u_error r \<noteq> None)"

definition delete_envelope :: "DeleteResult \<Rightarrow> bool" where
  "delete_envelope r =
     (if d_success r then d_error r = None else d_deletedCount r = 0 \<and> d_error r \<noteq> None)"

subsection \<open>Repeated calls of the singleton accessor\<close>

text \<open>One call of \<open>getConnectionManager\<close> for each configuration of the list, in order.\<close>

primrec get_managers ::
  "process_env \<Rightarrow> PartialConfig option list \<Rightarrow> module_state \<Rightarrow> nat list \<times> module_state" where
  "get_managers env [] st = ([], st)"
| "get_managers env (cfg # cfgs) st =
     (case getConnectionManager env cfg st of
        (a, st') \<Rightarrow> (case get_managers env cfgs st' of (as, st'') \<Rightarrow> (a # as, st'')))"

subsection \<open>More inputs to run the code on\<close>

definition no_set :: UpdateFilter where
  "no_set = \<lparr> dollar_set = None, operators = [(''$inc'', [(''age'', VNum 1)])] \<rparr>"

definition reject_all :: ZodSchema where
  "reject_all =
     \<lparr> parse = (\<lambda>d. ZodError [\<lparr> path = [], message = ''Rejected'' \<rparr>]),
       partial_parse = (\<lambda>d. ZodError [\<lparr> path = [], message = ''Rejected'' \<rparr>]) \<rparr>"

definition cfg_a :: "PartialConfig option" where
  "cfg_a = Some \<lparr> p_uri = Some ''mongodb://a:27017'', p_dbName = Some ''a'', p_options = None \<rparr>"

definition cfg_b :: "PartialConfig option" where
  "cfg_b = Some \<lparr> p_uri = Some ''mongodb://b:27017'', p_dbName = Some ''b'', p_options = None \<rparr>"

definition no_env :: process_env where
  "no_env = \<lparr> MONGODB_URI = None, MONGODB_DB_NAME = None \<rparr>"

subsection \<open>Measures of a burst of connect calls\<close>

text \<open>
  The connection attempts issued to the driver, the attempts in flight, the calls that
  ended in a failure, and whether every handle returned so far is the manager's handle.
\<close>

fun is_attempt :: "io \<Rightarrow> bool" where
  "is_attempt (ClientConnect c) = True"
| "is_attempt (ClientClose c) = False"

fun is_in_flight :: "task \<Rightarrow> bool" where
  "is_in_flight ConnAwait = True"
| "is_in_flight t = False"

fun is_failure :: "task \<Rightarrow> bool" where
  "is_failure (ConnDone (Inl e)) = True"
| "is_failure t = False"

fun same_handle :: "Db option \<Rightarrow> task \<Rightarrow> bool" where
  "same_handle h (ConnDone (Inr d)) = (h = Some d)"
| "same_handle h t = True"

definition attempts :: "io list \<Rightarrow> nat" where
  "attempts tr = length (filter is_attempt tr)"

definition in_flight :: "task list \<Rightarrow> nat" where
  "in_flight ts = length (filter is_in_flight ts)"

definition failures :: "task list \<Rightarrow> nat" where
  "failures ts = length (filter is_failure ts)"

definition handles_agree :: "Db option \<Rightarrow> task list \<Rightarrow> bool" where
  "handles_agree h ts = list_all (same_handle h) ts"

text \<open>The events of a burst of \<open>connect\<close> calls: calls, timers and settled attempts.\<close>

fun connect_event :: "event \<Rightarrow> bool" where
  "connect_event CallConnect = True"
| "connect_event (TimerFires i) = True"
| "connect_event (ConnectSettles i outcome) = True"
| "connect_event ev = False"

text \<open>
  What holds of the process throughout such a burst: an attempt is in flight exactly while
  \<open>isConnecting\<close> is set, the manager holds a handle exactly when it is connected, and
  every attempt issued has failed, is in flight or has connected the manager.
\<close>

definition conn_inv :: "process \<Rightarrow> bool" where
  "conn_inv p =
     (client_ctor p = None \<and> exit_code p = None
      \<and> in_flight (tasks p) = (if isConnecting (mgr p) then 1 else 0)
      \<and> (isConnected (mgr p) \<longrightarrow> \<not> isConnecting (mgr p))
      \<and> (isConnected (mgr p) \<longleftrightarrow> db (mgr p) \<noteq> None)
      \<and> (isConnecting (mgr p) \<longrightarrow> client (mgr p) \<noteq> None)
      \<and> attempts (trace p) = failures (tasks p) + (if isConnecting (mgr p) then 1 else 0)
                      + (if isConnected (mgr p) then 1 else 0)
      \<and> handles_agree (db (mgr p)) (tasks p)
      \<and> (tasks p = [] \<longrightarrow> \<not> isConnected (mgr p))
      \<and> (tasks p \<noteq> [] \<longrightarrow> 1 \<le> attempts (trace p)))"

subsection \<open>Runs of the shutdown closure\<close>

fun is_shutdown :: "task \<Rightarrow> bool" where
  "is_shutdown ShutAwait = True"
| "is_shutdown (ShutResume r) = True"
| "is_shutdown t = False"

definition shutdown_runs :: "process \<Rightarrow> nat" where
  "shutdown_runs p = length (filter is_shutdown (tasks p))"

subsection \<open>Processes to run the manager in\<close>

definition fresh_process :: process where
  "fresh_process = new_process (new_MongoConnectionManager no_env None)"

definition test_db :: "nat \<Rightarrow> Db" where
  "test_db c = \<lparr> db_client = c, db_name = ''test'' \<rparr>"

definition connected_once :: process where
  "connected_once = run [CallConnect, ConnectSettles 0 None] fresh_process"

subsection \<open>Which collection an operation talks to\<close>

text \<open>
  The collection a driver call is issued on; an outcome with another heap of manager
  objects put in its world; whether the calls an operation has added to the record all
  went to one collection; and, for an operation started in world \<open>w\<close>, whether it gives
  the same outcome when the manager objects are replaced by \<open>h\<close> and issues its calls on
  the collection \<open>c\<close>.
\<close>

fun call_target :: "call \<Rightarrow> Collection" where
  "call_target (InsertOne c d) = c"
| "call_target (FindOne c f) = c"
| "call_target (ToArray c cur) = c"
| "call_target (CountDocuments c f) = c"
| "call_target (UpdateOne c f u) = c"
| "call_target (DeleteOne c f) = c"
| "call_target (DeleteMany c f) = c"

definition with_mgrs ::
  "(nat \<rightharpoonup> MongoConnectionManager) \<Rightarrow> 'r \<times> 's world \<Rightarrow> 'r \<times> 's world" where
  "with_mgrs h rw = (fst rw, (snd rw) \<lparr> mgrs := h \<rparr>)"

definition on_collection :: "Collection \<Rightarrow> 's world \<Rightarrow> 'r \<times> 's world \<Rightarrow> bool" where
  "on_collection c w rw =
     (take (length (calls w)) (calls (snd rw)) = calls w
      \<and> list_all (\<lambda>x. call_target x = c) (drop (length (calls w)) (calls (snd rw))))"

definition bound_at ::
  "(nat \<rightharpoonup> MongoConnectionManager) \<Rightarrow> 's world \<Rightarrow> Collection
     \<Rightarrow> ('s world \<Rightarrow> 'r \<times> 's world) \<Rightarrow> bool" where
  "bound_at h w c op = (op (w \<lparr> mgrs := h \<rparr>) = with_mgrs h (op w) \<and> on_collection c w (op w))"

text \<open>
  A manager that has been disconnected and connected again, and the world in which manager
  object 0 is the manager of a process.
\<close>

definition reconnected :: process where
  "reconnected =
     run [CallDisconnect, CloseSettles 1 None, CallConnect, ConnectSettles 2 None] connected_once"

definition world_of :: "process \<Rightarrow> doc list \<Rightarrow> mem world" where
  "world_of p ds =
     \<lparr> mgrs = [0 \<mapsto> mgr p], calls = [],
       server = \<lparr> docs = ds, fault = None, acknowledging = True \<rparr> \<rparr>"

section \<open>Properties\<close>

declare handleError_def [simp]

subsection \<open>Identifier validation\<close>

lemma validateId_malformed:
  "useObjectId opts = Some True \<Longrightarrow> \<not> ObjectId_isValid s \<Longrightarrow>
   validateId opts (StrId s) = Inl (Error (''Invalid ObjectId: '' @ s))"
  by (simp add: validateId_def)

lemma not_valid_example: "\<not> ObjectId_isValid ''invalid-object-id''"
  by (simp add: ObjectId_isValid_def)

text \<open>
  C1, as stated, fails: in native-id mode a malformed identifier string does not make
  \<open>findById\<close> or \<open>updateById\<close> throw. \<open>validateId\<close> throws inside the \<^verbatim>\<open>try\<close> block of the
  method, so the promise resolves to a failure envelope. Here both methods are run on the
  string \<^verbatim>\<open>invalid-object-id\<close>, the one the test suites use.
\<close>

theorem malformed_id_throws_counterexample:
  "\<not> ObjectId_isValid ''invalid-object-id''
   \<and> fst (findById native_engine mem_driver (StrId ''invalid-object-id'') (mem_world [])) =
       Inr \<lparr> f_success = False, f_data = None,
             f_error = Some ''Invalid ObjectId: invalid-object-id'' \<rparr>
   \<and> fst (updateById native_engine mem_driver (StrId ''invalid-object-id'')
            \<lparr> dollar_set = None, operators = [] \<rparr> (mem_world [])) =
       Inr \<lparr> u_success = False, u_data = None, u_modifiedCount = 0,
             u_error = Some ''Invalid ObjectId: invalid-object-id'' \<rparr>"
  by (simp add: findById_def findById_try_def updateById_def updateById_try_def
      validateId_def native_engine_def ObjectId_isValid_def)

text \<open>
  C1, amended: for every string that is not a valid ObjectId encoding, in native-id mode,
  \<open>findById\<close> and \<open>updateById\<close> resolve to a failure envelope whose message is
  \<^verbatim>\<open>Invalid ObjectId: \<close> followed by the string, and they issue no driver call: the world,
  with its record of calls and its server, is returned as it was, whatever the driver is.
\<close>

theorem malformed_id_failure_envelope:
  assumes "useObjectId (crud_options eng) = Some True" and "\<not> ObjectId_isValid s"
  shows "findById eng drv (StrId s) w =
           (Inr \<lparr> f_success = False, f_data = None,
                  f_error = Some (''Invalid ObjectId: '' @ s) \<rparr>, w)
       \<and> updateById eng drv (StrId s) upd w =
           (Inr \<lparr> u_success = False, u_data = None, u_modifiedCount = 0,
                  u_error = Some (''Invalid ObjectId: '' @ s) \<rparr>, w)"
  using assms
  by (simp add: findById_def findById_try_def updateById_def updateById_try_def
      validateId_malformed)

theorem malformed_id_failure_envelope_witness:
  "useObjectId (crud_options native_engine) = Some True
   \<and> \<not> ObjectId_isValid ''invalid-object-id''
   \<and> findById native_engine mem_driver (StrId ''invalid-object-id'') (mem_world three_users) =
       (Inr \<lparr> f_success = False, f_data = None,
              f_error = Some ''Invalid ObjectId: invalid-object-id'' \<rparr>, mem_world three_users)
   \<and> calls (snd (updateById native_engine mem_driver (StrId ''invalid-object-id'')
                   \<lparr> dollar_set = None, operators = [] \<rparr> (mem_world three_users))) = []"
proof -
  have a: "useObjectId (crud_options native_engine) = Some True"
    by (simp add: native_engine_def)
  show ?thesis
    using malformed_id_failure_envelope [OF a not_valid_example, of mem_driver
        "mem_world three_users" "\<lparr> dollar_set = None, operators = [] \<rparr>"] a not_valid_example
    by (simp add: mem_world_def)
qed

subsection \<open>Validation failures\<close>

lemma join_dotted: "join ''.'' segs = dotted segs"
  by (induction segs rule: dotted.induct) simp_all

lemma issue_text_violation: "issue_text v = violation_text v"
  by (simp add: issue_text_def violation_text_def join_dotted)

lemma join_listing: "join '', '' (map issue_text errors) = listing errors"
  by (induction errors rule: listing.induct) (simp_all add: issue_text_violation)

lemma create_invalid:
  assumes "parse (schema eng) d = ZodError errors"
  shows "create eng drv rnd d w =
           (Inr \<lparr> c_success = False, c_data = None, c_id = None,
                  c_error = Some (''Validation failed: ''
                                  @ join '', '' (map issue_text errors)) \<rparr>, w)"
  using assms by (simp add: create_def create_try_def validateData_def)

lemma update_invalid:
  assumes "dollar_set upd = Some sd" and "partial_parse (schema eng) sd = ZodError errors"
  shows "updateById eng drv i upd w =
           (Inr \<lparr> u_success = False, u_data = None, u_modifiedCount = 0,
                  u_error = Some (case validateId (crud_options eng) i of
                                    Inl e \<Rightarrow> exn_text e
                                  | Inr v \<Rightarrow> ''Update validation failed: ''
                                              @ join '', '' (map issue_text errors)) \<rparr>, w)"
  using assms
  by (cases "validateId (crud_options eng) i")
     (simp_all add: updateById_def updateById_try_def validateSet_def)

lemma bad_user_parse:
  "parse (schema uuid_engine) bad_user =
     ZodError [\<lparr> path = [''name''], message = ''Required'' \<rparr>,
               \<lparr> path = [''age''], message = ''Number must be greater than or equal to 0'' \<rparr>]"
  by (simp add: uuid_engine_def UserSchema_def user_issues_def bad_user_def)

lemma bad_user_partial:
  "partial_parse (schema uuid_engine) bad_user =
     ZodError [\<lparr> path = [''age''], message = ''Number must be greater than or equal to 0'' \<rparr>]"
  by (simp add: uuid_engine_def UserSchema_def user_issues_def bad_user_def)

text \<open>
  C5: when \<open>schema.parse\<close> rejects the input with the violations \<open>errors\<close>, \<open>create\<close>
  resolves to a failure envelope whose message is \<^verbatim>\<open>Validation failed: \<close> followed by
  the list of all the violations, each with its field path and its message, and the world
  is unchanged: no driver call is made, whatever the driver is. When the payload of
  \<open>updateById\<close> has a \<^verbatim>\<open>$set\<close> section that the partial schema rejects, \<open>updateById\<close>
  resolves to a failure envelope and the world is unchanged as well; its message is that
  of the identifier when the identifier is rejected first, and otherwise
  \<^verbatim>\<open>Update validation failed: \<close> followed by the list of all the violations.
\<close>

theorem validation_failure_no_store_call:
  "(parse (schema eng) d = ZodError errors \<longrightarrow>
      create eng drv rnd d w =
        (Inr \<lparr> c_success = False, c_data = None, c_id = None,
               c_error = Some (''Validation failed: '' @ listing errors) \<rparr>, w))
   \<and> (dollar_set upd = Some sd \<and> partial_parse (schema eng) sd = ZodError errors' \<longrightarrow>
      updateById eng drv i upd w =
        (Inr \<lparr> u_success = False, u_data = None, u_modifiedCount = 0,
               u_error = Some (case validateId (crud_options eng) i of
                                 Inl e \<Rightarrow> exn_text e
                               | Inr v \<Rightarrow> ''Update validation failed: '' @ listing errors') \<rparr>,
         w))"
proof (intro conjI impI)
  assume "parse (schema eng) d = ZodError errors"
  then show "create eng drv rnd d w =
        (Inr \<lparr> c_success = False, c_data = None, c_id = None,
               c_error = Some (''Validation failed: '' @ listing errors) \<rparr>, w)"
    using create_invalid [of eng d errors drv rnd w] by (simp only: join_listing)
next
  assume "dollar_set upd = Some sd \<and> partial_parse (schema eng) sd = ZodError errors'"
  then show "updateById eng drv i upd w =
        (Inr \<lparr> u_success = False, u_data = None, u_modifiedCount = 0,
               u_error = Some (case validateId (crud_options eng) i of
                                 Inl e \<Rightarrow> exn_text e
                               | Inr v \<Rightarrow> ''Update validation failed: '' @ listing errors') \<rparr>,
         w)"
    using update_invalid [of upd sd eng errors' drv i w] by (simp only: join_listing)
qed

theorem validation_failure_no_store_call_witness:
  "parse (schema uuid_engine) bad_user =
     ZodError [\<lparr> path = [''name''], message = ''Required'' \<rparr>,
               \<lparr> path = [''age''], message = ''Number must be greater than or equal to 0'' \<rparr>]
   \<and> partial_parse (schema uuid_engine) bad_user =
     ZodError [\<lparr> path = [''age''], message = ''Number must be greater than or equal to 0'' \<rparr>]
   \<and> create uuid_engine mem_driver \<lparr> fresh_oid = ObjectId [], fresh_uuid = ''u9'' \<rparr>
        bad_user (mem_world three_users) =
       (Inr \<lparr> c_success = False, c_data = None, c_id = None,
              c_error = Some (''Validation failed: name: Required, ''
                              @ ''age: Number must be greater than or equal to 0'') \<rparr>,
        mem_world three_users)
   \<and> updateById uuid_engine mem_driver (StrId ''u1'')
        \<lparr> dollar_set = Some bad_user, operators = [] \<rparr> (mem_world three_users) =
       (Inr \<lparr> u_success = False, u_data = None, u_modifiedCount = 0,
              u_error = Some (''Update validation failed: ''
                              @ ''age: Number must be greater than or equal to 0'') \<rparr>,
        mem_world three_users)"
proof -
  have v: "validateId (crud_options uuid_engine) (StrId ''u1'') = Inr (StrId ''u1'')"
    by (simp add: validateId_def uuid_engine_def)
  show ?thesis
    using validation_failure_no_store_call [of uuid_engine bad_user
      "[\<lparr> path = [''name''], message = ''Required'' \<rparr>,
        \<lparr> path = [''age''], message = ''Number must be greater than or equal to 0'' \<rparr>]"
      mem_driver "\<lparr> fresh_oid = ObjectId [], fresh_uuid = ''u9'' \<rparr>" "mem_world three_users"
      "\<lparr> dollar_set = Some bad_user, operators = [] \<rparr>" bad_user
      "[\<lparr> path = [''age''], message = ''Number must be greater than or equal to 0'' \<rparr>]"
      "StrId ''u1''"]
      bad_user_parse bad_user_partial v
    by (simp add: violation_text_def)
qed

subsection \<open>Paging\<close>

lemma findMany_try_unfold:
  "findMany_try eng drv filter_arg options_arg w =
     (case do_toArray drv (collection eng) (spec_cursor filter_arg options_arg) w of
        (Inl e, w') \<Rightarrow> (Inl e, w')
      | (Inr documents, w') \<Rightarrow>
          (case do_countDocuments drv (collection eng)
                  (case filter_arg of None \<Rightarrow> [] | Some f \<Rightarrow> f) w' of
             (Inl e, w'') \<Rightarrow> (Inl e, w'')
           | (Inr total_count, w'') \<Rightarrow>
               (Inr \<lparr> m_success = True, m_data = documents, m_total = total_count,
                      m_error = None \<rparr>, w'')))"
proof -
  have c: "spec_cursor filter_arg options_arg =
     (let flt = (case filter_arg of None \<Rightarrow> [] | Some f \<Rightarrow> f);
          opts = (case options_arg of
                    None \<Rightarrow> \<lparr> limit = None, skip = None, findOptions = [] \<rparr>
                  | Some opt \<Rightarrow> opt);
          lim = (case limit opts of None \<Rightarrow> 100 | Some l \<Rightarrow> l);
          skp = (case skip opts of None \<Rightarrow> 0 | Some k \<Rightarrow> k);
          cursor0 = \<lparr> cur_filter = flt, cur_options = findOptions opts,
                      cur_skip = None, cur_limit = None \<rparr>;
          cursor1 = (if skp > 0 then cursor0 \<lparr> cur_skip := Some skp \<rparr> else cursor0)
      in (if lim > 0 then cursor1 \<lparr> cur_limit := Some lim \<rparr> else cursor1))"
    by (cases options_arg; cases filter_arg) (simp_all add: spec_cursor_def Let_def)
  show ?thesis
    unfolding c by (simp add: findMany_try_def Let_def)
qed

lemma findMany_first_call:
  "\<exists>rest. calls (snd (findMany eng drv filter_arg options_arg w)) =
            calls w @ ToArray (collection eng) (spec_cursor filter_arg options_arg) # rest"
  by (auto simp add: findMany_def findMany_try_unfold do_toArray_def do_countDocuments_def
      split: sum.splits prod.splits)

lemma findMany_resolved:
  assumes "toArray drv (collection eng) (spec_cursor filter_arg options_arg) (server w)
             = (Inr documents, s1)"
      and "countDocuments drv (collection eng)
             (case filter_arg of None \<Rightarrow> [] | Some f \<Rightarrow> f) s1 = (Inr n, s2)"
  shows "findMany eng drv filter_arg options_arg w =
           (Inr \<lparr> m_success = True, m_data = documents, m_total = n, m_error = None \<rparr>,
            w \<lparr> calls := calls w @
                   [ToArray (collection eng) (spec_cursor filter_arg options_arg),
                    CountDocuments (collection eng)
                      (case filter_arg of None \<Rightarrow> [] | Some f \<Rightarrow> f)],
                server := s2 \<rparr>)"
  using assms
  by (simp add: findMany_def findMany_try_unfold do_toArray_def do_countDocuments_def)

lemma page_spec_cursor:
  "page (spec_cursor filter_arg options_arg) ds =
     spec_page (Option.bind options_arg limit) (Option.bind options_arg skip) ds"
  by (simp add: page_def spec_cursor_def spec_page_def Let_def)

lemma findMany_in_memory:
  assumes "fault (server w) = None"
  shows "fst (findMany eng mem_driver filter_arg options_arg w) =
     (let flt = (case filter_arg of None \<Rightarrow> [] | Some f \<Rightarrow> f);
          found = filter (matches flt) (docs (server w))
      in Inr \<lparr> m_success = True,
               m_data = spec_page (Option.bind options_arg limit)
                          (Option.bind options_arg skip) found,
               m_total = int (length found), m_error = None \<rparr>)
     \<and> server (snd (findMany eng mem_driver filter_arg options_arg w)) = server w"
proof -
  have c: "cur_filter (spec_cursor filter_arg options_arg)
             = (case filter_arg of None \<Rightarrow> [] | Some f \<Rightarrow> f)"
    by (simp add: spec_cursor_def Let_def)
  have a: "toArray mem_driver (collection eng) (spec_cursor filter_arg options_arg) (server w)
             = (Inr (spec_page (Option.bind options_arg limit) (Option.bind options_arg skip)
                      (filter (matches (case filter_arg of None \<Rightarrow> [] | Some f \<Rightarrow> f))
                         (docs (server w)))), server w)"
    using assms by (simp add: mem_driver_def responding_def page_spec_cursor c)
  have b: "countDocuments mem_driver (collection eng)
             (case filter_arg of None \<Rightarrow> [] | Some f \<Rightarrow> f) (server w)
             = (Inr (int (length (filter (matches (case filter_arg of None \<Rightarrow> []
                                                    | Some f \<Rightarrow> f)) (docs (server w))))),
                server w)"
    using assms by (simp add: mem_driver_def responding_def)
  show ?thesis
    unfolding findMany_resolved [OF a b] by (simp add: Let_def)
qed

text \<open>
  C6: whatever the driver is, the first call of \<open>findMany\<close> is the scan with the cursor
  the specification describes (\<open>limit\<close> defaulting to 100 and not set on the cursor when
  it is zero or negative, \<open>skip\<close> defaulting to 0), and when the scan and the count for
  the same filter both resolve, \<open>findMany\<close> returns the scanned page with the count as
  \<open>total\<close>. On a server that answers, the page is the one the specification describes
  and \<open>total\<close> is the number of all documents that match the filter, whatever \<open>skip\<close> and
  \<open>limit\<close> are; the server is left as it was.
\<close>

theorem findMany_page_and_total:
  "(\<exists>rest. calls (snd (findMany eng drv filter_arg options_arg w)) =
            calls w @ ToArray (collection eng) (spec_cursor filter_arg options_arg) # rest)
   \<and> (toArray drv (collection eng) (spec_cursor filter_arg options_arg) (server w)
         = (Inr documents, sa)
       \<and> countDocuments drv (collection eng)
           (case filter_arg of None \<Rightarrow> [] | Some f \<Rightarrow> f) sa = (Inr n, sb)
      \<longrightarrow> findMany eng drv filter_arg options_arg w =
           (Inr \<lparr> m_success = True, m_data = documents, m_total = n, m_error = None \<rparr>,
            w \<lparr> calls := calls w @
                   [ToArray (collection eng) (spec_cursor filter_arg options_arg),
                    CountDocuments (collection eng)
                      (case filter_arg of None \<Rightarrow> [] | Some f \<Rightarrow> f)],
                server := sb \<rparr>))
   \<and> (fault (server wm) = None \<longrightarrow>
        fst (findMany eng mem_driver filter_arg options_arg wm) =
          (let flt = (case filter_arg of None \<Rightarrow> [] | Some f \<Rightarrow> f);
               found = filter (matches flt) (docs (server wm))
           in Inr \<lparr> m_success = True,
                    m_data = spec_page (Option.bind options_arg limit)
                               (Option.bind options_arg skip) found,
                    m_total = int (length found), m_error = None \<rparr>)
        \<and> server (snd (findMany eng mem_driver filter_arg options_arg wm)) = server wm)"
  using findMany_first_call [of eng drv filter_arg options_arg w]
    findMany_resolved [of drv eng filter_arg options_arg w documents sa n sb]
    findMany_in_memory [of wm eng filter_arg options_arg]
  by blast

theorem findMany_page_and_total_witness:
  "toArray mem_driver (collection uuid_engine)
     (spec_cursor (Some []) (Some \<lparr> limit = Some 2, skip = Some 1, findOptions = [] \<rparr>))
     (server (mem_world three_users))
     = (Inr [user ''u2'' ''Bob'' 35, user ''u3'' ''Charlie'' 22], server (mem_world three_users))
   \<and> countDocuments mem_driver (collection uuid_engine) [] (server (mem_world three_users))
     = (Inr 3, server (mem_world three_users))
   \<and> fault (server (mem_world three_users)) = None
   \<and> fst (findMany uuid_engine mem_driver (Some [])
            (Some \<lparr> limit = Some 2, skip = Some 1, findOptions = [] \<rparr>) (mem_world three_users))
     = Inr \<lparr> m_success = True, m_data = [user ''u2'' ''Bob'' 35, user ''u3'' ''Charlie'' 22],
             m_total = 3, m_error = None \<rparr>
   \<and> calls (snd (findMany uuid_engine mem_driver (Some [])
            (Some \<lparr> limit = Some 2, skip = Some 1, findOptions = [] \<rparr>) (mem_world three_users)))
     = [ToArray (users_of 0)
          \<lparr> cur_filter = [], cur_options = [], cur_skip = Some 1, cur_limit = Some 2 \<rparr>,
        CountDocuments (users_of 0) []]"
proof -
  let ?o = "Some \<lparr> limit = Some 2, skip = Some 1, findOptions = [] \<rparr>"
  have c: "spec_cursor (Some []) ?o =
             \<lparr> cur_filter = [], cur_options = [], cur_skip = Some 1, cur_limit = Some 2 \<rparr>"
    by (simp add: spec_cursor_def)
  have a: "toArray mem_driver (collection uuid_engine) (spec_cursor (Some []) ?o)
             (server (mem_world three_users))
           = (Inr [user ''u2'' ''Bob'' 35, user ''u3'' ''Charlie'' 22],
              server (mem_world three_users))"
    unfolding c
    by (simp add: mem_driver_def responding_def mem_world_def three_users_def page_def
        matches_def)
  have b: "countDocuments mem_driver (collection uuid_engine) []
             (server (mem_world three_users)) = (Inr 3, server (mem_world three_users))"
    by (simp add: mem_driver_def responding_def mem_world_def three_users_def matches_def)
  have f: "fault (server (mem_world three_users)) = None"
    by (simp add: mem_world_def)
  have u: "collection uuid_engine = users_of 0"
    by (simp add: uuid_engine_def)
  show ?thesis
    using findMany_page_and_total [where eng = uuid_engine and drv = mem_driver
        and filter_arg = "Some []" and options_arg = ?o and w = "mem_world three_users"
        and wm = "mem_world three_users"
        and documents = "[user ''u2'' ''Bob'' 35, user ''u3'' ''Charlie'' 22]"
        and sa = "server (mem_world three_users)" and n = 3
        and sb = "server (mem_world three_users)"] a b f
    by (simp add: c u mem_world_def)
qed

subsection \<open>Lookup of an absent identifier\<close>

text \<open>
  C7: when the identifier passes \<open>validateId\<close> and the driver's lookup resolves to no
  document, \<open>findById\<close> does not throw: its promise resolves to a failure envelope without
  data whose message is \<^verbatim>\<open>Document with id <id> not found\<close>. One driver call, the lookup,
  has been made; a transport error would carry the driver's own message instead.
\<close>

theorem findById_absent:
  assumes "validateId (crud_options eng) i = Inr vid"
      and "findOne drv (collection eng) (by_id vid) (server w) = (Inr None, s')"
  shows "findById eng drv i w =
           (Inr \<lparr> f_success = False, f_data = None,
                  f_error = Some (''Document with id '' @ id_text i @ '' not found'') \<rparr>,
            w \<lparr> calls := calls w @ [FindOne (collection eng) (by_id vid)], server := s' \<rparr>)"
  using assms by (simp add: findById_def findById_try_def do_findOne_def)

theorem findById_absent_witness:
  "validateId (crud_options uuid_engine) (StrId ''u7'') = Inr (StrId ''u7'')
   \<and> findOne mem_driver (collection uuid_engine) (by_id (StrId ''u7''))
        (server (mem_world three_users)) = (Inr None, server (mem_world three_users))
   \<and> fst (findById uuid_engine mem_driver (StrId ''u7'') (mem_world three_users)) =
       Inr \<lparr> f_success = False, f_data = None,
             f_error = Some ''Document with id u7 not found'' \<rparr>"
proof -
  have a: "validateId (crud_options uuid_engine) (StrId ''u7'') = Inr (StrId ''u7'')"
    by (simp add: validateId_def uuid_engine_def)
  have b: "findOne mem_driver (collection uuid_engine) (by_id (StrId ''u7''))
        (server (mem_world three_users)) = (Inr None, server (mem_world three_users))"
    by (simp add: mem_driver_def responding_def mem_world_def three_users_def user_def
        matches_def by_id_def)
  show ?thesis using findById_absent [OF a b] a b by simp
qed

subsection \<open>The shape of every envelope\<close>

lemma create_try_envelope:
  "create_try eng drv rnd d w = (Inr r, w') \<Longrightarrow> create_envelope r"
  unfolding create_try_def Let_def
  by (auto split: sum.splits prod.splits if_splits simp add: create_envelope_def)

lemma create_envelope_ok:
  "\<exists>r w'. create eng drv rnd d w = (Inr r, w') \<and> create_envelope r"
proof (cases "create_try eng drv rnd d w")
  case (Pair x w')
  show ?thesis
  proof (cases x)
    case (Inl e)
    with Pair show ?thesis by (simp add: create_def create_envelope_def)
  next
    case (Inr r)
    with Pair create_try_envelope [of eng drv rnd d w r w'] show ?thesis
      by (simp add: create_def)
  qed
qed

lemma findById_try_envelope:
  "findById_try eng drv i w = (Inr r, w') \<Longrightarrow> find_envelope r"
  unfolding findById_try_def
  by (auto split: sum.splits prod.splits option.splits simp add: find_envelope_def)

lemma findById_envelope_ok:
  "\<exists>r w'. findById eng drv i w = (Inr r, w') \<and> find_envelope r"
proof (cases "findById_try eng drv i w")
  case (Pair x w')
  show ?thesis
  proof (cases x)
    case (Inl e)
    with Pair show ?thesis by (simp add: findById_def find_envelope_def)
  next
    case (Inr r)
    with Pair findById_try_envelope [of eng drv i w r w'] show ?thesis
      by (simp add: findById_def)
  qed
qed

lemma findMany_try_envelope:
  "findMany_try eng drv fa oa w = (Inr r, w') \<Longrightarrow> findMany_envelope r"
  unfolding findMany_try_def Let_def
  by (auto split: sum.splits prod.splits simp add: findMany_envelope_def)

lemma findMany_envelope_ok:
  "\<exists>r w'. findMany eng drv fa oa w = (Inr r, w') \<and> findMany_envelope r"
proof (cases "findMany_try eng drv fa oa w")
  case (Pair x w')
  show ?thesis
  proof (cases x)
    case (Inl e)
    with Pair show ?thesis by (simp add: findMany_def findMany_envelope_def)
  next
    case (Inr r)
    with Pair findMany_try_envelope [of eng drv fa oa w r w'] show ?thesis
      by (simp add: findMany_def)
  qed
qed

lemma updateById_try_envelope:
  "updateById_try eng drv i upd w = (Inr r, w') \<Longrightarrow> update_envelope r"
  unfolding updateById_try_def
  by (auto split: sum.splits prod.splits if_splits simp add: update_envelope_def)

lemma updateById_envelope_ok:
  "\<exists>r w'. updateById eng drv i upd w = (Inr r, w') \<and> update_envelope r"
proof (cases "updateById_try eng drv i upd w")
  case (Pair x w')
  show ?thesis
  proof (cases x)
    case (Inl e)
    with Pair show ?thesis by (simp add: updateById_def update_envelope_def)
  next
    case (Inr r)
    with Pair updateById_try_envelope [of eng drv i upd w r w'] show ?thesis
      by (simp add: updateById_def)
  qed
qed

lemma delete_outcome_ok: "delete_envelope (delete_outcome result)"
  by (simp add: delete_envelope_def delete_outcome_def)

lemma deleteById_try_envelope:
  "deleteById_try eng drv i w = (Inr r, w') \<Longrightarrow> delete_envelope r"
  unfolding deleteById_try_def
  by (auto split: sum.splits prod.splits simp add: delete_outcome_ok)

lemma deleteById_envelope_ok:
  "\<exists>r w'. deleteById eng drv i w = (Inr r, w') \<and> delete_envelope r"
proof (cases "deleteById_try eng drv i w")
  case (Pair x w')
  show ?thesis
  proof (cases x)
    case (Inl e)
    with Pair show ?thesis by (simp add: deleteById_def delete_envelope_def)
  next
    case (Inr r)
    with Pair deleteById_try_envelope [of eng drv i w r w'] show ?thesis
      by (simp add: deleteById_def)
  qed
qed

lemma deleteMany_try_envelope:
  "deleteMany_try eng drv flt w = (Inr r, w') \<Longrightarrow> delete_envelope r"
  unfolding deleteMany_try_def
  by (auto split: sum.splits prod.splits simp add: delete_outcome_ok)

lemma deleteMany_envelope_ok:
  "\<exists>r w'. deleteMany eng drv flt w = (Inr r, w') \<and> delete_envelope r"
proof (cases "deleteMany_try eng drv flt w")
  case (Pair x w')
  show ?thesis
  proof (cases x)
    case (Inl e)
    with Pair show ?thesis by (simp add: deleteMany_def delete_envelope_def)
  next
    case (Inr r)
    with Pair deleteMany_try_envelope [of eng drv flt w r w'] show ?thesis
      by (simp add: deleteMany_def)
  qed
qed

lemma findById_not_found_is_failure:
  assumes "validateId (crud_options eng) i = Inr vid"
      and "findOne drv (collection eng) (by_id vid) (server w) = (Inr None, s')"
  shows "fst (findById eng drv i w) =
           Inr \<lparr> f_success = False, f_data = None,
                 f_error = Some (''Document with id '' @ id_text i @ '' not found'') \<rparr>"
  using assms by (simp add: findById_def findById_try_def do_findOne_def)

lemma updateById_zero_matched:
  assumes "validateId (crud_options eng) i = Inr vid"
      and "dollar_set upd = None \<or> (\<exists>sd t. dollar_set upd = Some sd \<and> partial_parse (schema eng) sd = Parsed t)"
      and "updateOne drv (collection eng) (by_id vid) upd (server w) =
             (Inr \<lparr> upd_acknowledged = True, upd_modifiedCount = 0 \<rparr>, s1)"
      and "findOne drv (collection eng) (by_id vid) s1 = (Inr None, s2)"
  shows "fst (updateById eng drv i upd w) =
           Inr \<lparr> u_success = True, u_data = None, u_modifiedCount = 0, u_error = None \<rparr>"
  using assms
  by (auto simp add: updateById_def updateById_try_def do_updateOne_def do_findOne_def
      validateSet_def)

lemma deleteById_zero_deleted:
  assumes "validateId (crud_options eng) i = Inr vid"
      and "deleteOne drv (collection eng) (by_id vid) (server w) =
             (Inr \<lparr> del_acknowledged = True, del_deletedCount = 0 \<rparr>, s1)"
  shows "fst (deleteById eng drv i w) =
           Inr \<lparr> d_success = True, d_deletedCount = 0, d_error = None \<rparr>"
  using assms
  by (simp add: deleteById_def deleteById_try_def do_deleteOne_def delete_outcome_def)

lemma deleteMany_zero_deleted:
  assumes "driver.deleteMany drv (collection eng) flt (server w) =
             (Inr \<lparr> del_acknowledged = True, del_deletedCount = 0 \<rparr>, s1)"
  shows "fst (deleteMany eng drv flt w) =
           Inr \<lparr> d_success = True, d_deletedCount = 0, d_error = None \<rparr>"
  using assms
  by (simp add: deleteMany_def deleteMany_try_def do_deleteMany_def delete_outcome_def)

lemma u7_valid: "validateId (crud_options uuid_engine) (StrId ''u7'') = Inr (StrId ''u7'')"
  by (simp add: validateId_def uuid_engine_def)

lemma u7_absent:
  "findOne mem_driver (collection uuid_engine) (by_id (StrId ''u7''))
     (server (mem_world three_users)) = (Inr None, server (mem_world three_users))"
  by (simp add: mem_driver_def responding_def mem_world_def three_users_def user_def
      matches_def by_id_def)

lemma u7_update:
  "updateOne mem_driver (collection uuid_engine) (by_id (StrId ''u7'')) no_set
     (server (mem_world three_users)) =
   (Inr \<lparr> upd_acknowledged = True, upd_modifiedCount = 0 \<rparr>, server (mem_world three_users))"
  by (simp add: mem_driver_def responding_def mem_world_def three_users_def user_def
      matches_def by_id_def)

lemma u7_delete:
  "deleteOne mem_driver (collection uuid_engine) (by_id (StrId ''u7''))
     (server (mem_world three_users)) =
   (Inr \<lparr> del_acknowledged = True, del_deletedCount = 0 \<rparr>, server (mem_world three_users))"
  by (simp add: mem_driver_def responding_def mem_world_def three_users_def user_def
      matches_def by_id_def)

lemma zed_delete:
  "driver.deleteMany mem_driver (collection uuid_engine) [(''name'', VStr ''Zed'')]
     (server (mem_world three_users)) =
   (Inr \<lparr> del_acknowledged = True, del_deletedCount = 0 \<rparr>, server (mem_world three_users))"
  by (simp add: mem_driver_def responding_def mem_world_def three_users_def user_def
      matches_def)

text \<open>
  C8, as stated, fails in its second half: the not-found outcome of \<open>findById\<close> is a
  failure envelope, not a success. Here \<open>findById\<close> looks up an identifier that none of
  the three stored documents has.
\<close>

theorem not_found_is_success_counterexample:
  "fst (findById uuid_engine mem_driver (StrId ''u7'') (mem_world three_users)) =
     Inr \<lparr> f_success = False, f_data = None,
           f_error = Some ''Document with id u7 not found'' \<rparr>"
  by (simp add: findById_def findById_try_def do_findOne_def validateId_def uuid_engine_def
      mem_driver_def responding_def mem_world_def three_users_def user_def matches_def
      by_id_def)

text \<open>
  C8, amended: every method that returns an envelope resolves (it never rejects) to a
  well-formed one, whatever the driver does: a success carries no error message, a failure
  carries a message and no data. An update that matches nothing and a delete that deletes
  nothing are successes with count 0 (and absent data); a lookup that finds nothing is a
  failure with the not-found message.
\<close>

theorem envelopes_and_business_outcomes:
  "(\<exists>r w'. create eng drv rnd d w = (Inr r, w') \<and> create_envelope r)
   \<and> (\<exists>r w'. findById eng drv i w = (Inr r, w') \<and> find_envelope r)
   \<and> (\<exists>r w'. findMany eng drv filter_arg options_arg w = (Inr r, w') \<and> findMany_envelope r)
   \<and> (\<exists>r w'. updateById eng drv i upd w = (Inr r, w') \<and> update_envelope r)
   \<and> (\<exists>r w'. deleteById eng drv i w = (Inr r, w') \<and> delete_envelope r)
   \<and> (\<exists>r w'. deleteMany eng drv flt w = (Inr r, w') \<and> delete_envelope r)
   \<and> (validateId (crud_options eng) i = Inr vid
        \<and> findOne drv (collection eng) (by_id vid) (server w) = (Inr None, s1)
       \<longrightarrow> fst (findById eng drv i w) =
             Inr \<lparr> f_success = False, f_data = None,
                   f_error = Some (''Document with id '' @ id_text i @ '' not found'') \<rparr>)
   \<and> (validateId (crud_options eng) i = Inr vid
        \<and> (dollar_set upd = None
            \<or> (\<exists>sd t. dollar_set upd = Some sd \<and> partial_parse (schema eng) sd = Parsed t))
        \<and> updateOne drv (collection eng) (by_id vid) upd (server w) =
             (Inr \<lparr> upd_acknowledged = True, upd_modifiedCount = 0 \<rparr>, s2)
        \<and> findOne drv (collection eng) (by_id vid) s2 = (Inr None, s3)
       \<longrightarrow> fst (updateById eng drv i upd w) =
             Inr \<lparr> u_success = True, u_data = None, u_modifiedCount = 0, u_error = None \<rparr>)
   \<and> (validateId (crud_options eng) i = Inr vid
        \<and> deleteOne drv (collection eng) (by_id vid) (server w) =
             (Inr \<lparr> del_acknowledged = True, del_deletedCount = 0 \<rparr>, s4)
       \<longrightarrow> fst (deleteById eng drv i w) =
             Inr \<lparr> d_success = True, d_deletedCount = 0, d_error = None \<rparr>)
   \<and> (driver.deleteMany drv (collection eng) flt (server w) =
             (Inr \<lparr> del_acknowledged = True, del_deletedCount = 0 \<rparr>, s5)
       \<longrightarrow> fst (deleteMany eng drv flt w) =
             Inr \<lparr> d_success = True, d_deletedCount = 0, d_error = None \<rparr>)"
  using create_envelope_ok [of eng drv rnd d w] findById_envelope_ok [of eng drv i w]
    findMany_envelope_ok [of eng drv filter_arg options_arg w]
    updateById_envelope_ok [of eng drv i upd w] deleteById_envelope_ok [of eng drv i w]
    deleteMany_envelope_ok [of eng drv flt w]
    findById_not_found_is_failure [of eng i vid drv w s1]
    updateById_zero_matched [of eng i vid upd drv w s2 s3]
    deleteById_zero_deleted [of eng i vid drv w s4]
    deleteMany_zero_deleted [of drv eng flt w s5]
  by blast

theorem envelopes_and_business_outcomes_witness:
  "validateId (crud_options uuid_engine) (StrId ''u7'') = Inr (StrId ''u7'')
   \<and> findOne mem_driver (collection uuid_engine) (by_id (StrId ''u7''))
        (server (mem_world three_users)) = (Inr None, server (mem_world three_users))
   \<and> dollar_set no_set = None
   \<and> updateOne mem_driver (collection uuid_engine) (by_id (StrId ''u7'')) no_set
        (server (mem_world three_users)) =
      (Inr \<lparr> upd_acknowledged = True, upd_modifiedCount = 0 \<rparr>, server (mem_world three_users))
   \<and> deleteOne mem_driver (collection uuid_engine) (by_id (StrId ''u7''))
        (server (mem_world three_users)) =
      (Inr \<lparr> del_acknowledged = True, del_deletedCount = 0 \<rparr>, server (mem_world three_users))
   \<and> driver.deleteMany mem_driver (collection uuid_engine) [(''name'', VStr ''Zed'')]
        (server (mem_world three_users)) =
      (Inr \<lparr> del_acknowledged = True, del_deletedCount = 0 \<rparr>, server (mem_world three_users))
   \<and> fst (findById uuid_engine mem_driver (StrId ''u7'') (mem_world three_users)) =
        Inr \<lparr> f_success = False, f_data = None,
              f_error = Some ''Document with id u7 not found'' \<rparr>
   \<and> fst (updateById uuid_engine mem_driver (StrId ''u7'') no_set (mem_world three_users)) =
        Inr \<lparr> u_success = True, u_data = None, u_modifiedCount = 0, u_error = None \<rparr>
   \<and> fst (deleteById uuid_engine mem_driver (StrId ''u7'') (mem_world three_users)) =
        Inr \<lparr> d_success = True, d_deletedCount = 0, d_error = None \<rparr>
   \<and> fst (deleteMany uuid_engine mem_driver [(''name'', VStr ''Zed'')] (mem_world three_users)) =
        Inr \<lparr> d_success = True, d_deletedCount = 0, d_error = None \<rparr>"
proof -
  have s: "dollar_set no_set = None" by (simp add: no_set_def)
  show ?thesis
    using envelopes_and_business_outcomes [of uuid_engine mem_driver
        "\<lparr> fresh_oid = ObjectId [], fresh_uuid = ''u9'' \<rparr>" bad_user "mem_world three_users"
        "StrId ''u7''" None None no_set "[(''name'', VStr ''Zed'')]" "StrId ''u7''"
        "server (mem_world three_users)" "server (mem_world three_users)"
        "server (mem_world three_users)" "server (mem_world three_users)"
        "server (mem_world three_users)"]
      u7_valid u7_absent u7_update u7_delete zed_delete s
    by simp
qed

subsection \<open>Updates without a replacement section\<close>

lemma updateById_try_schema_irrelevant:
  "dollar_set upd = None \<Longrightarrow>
   updateById_try (eng \<lparr> schema := sch \<rparr>) drv i upd w = updateById_try eng drv i upd w"
  by (simp add: updateById_try_def split: sum.splits prod.splits)

lemma updateById_calls_updateOne:
  assumes "dollar_set upd = None" and "validateId (crud_options eng) i = Inr vid"
  shows "\<exists>rest. calls (snd (updateById eng drv i upd w)) =
           calls w @ UpdateOne (collection eng) (by_id vid) upd # rest"
  using assms
  by (auto simp add: updateById_def updateById_try_def do_updateOne_def do_findOne_def
      split: sum.splits prod.splits)

text \<open>
  C9: when the payload has no \<^verbatim>\<open>$set\<close> section, \<open>updateById\<close> does not consult the schema
  at all: with any other schema in its place the method behaves the same, for every
  identifier, driver and world. When the identifier passes \<open>validateId\<close>, the first thing
  the method does is the driver call \<^verbatim>\<open>updateOne\<close> with the payload as it was given.
\<close>

theorem update_without_set_is_unvalidated:
  assumes "dollar_set upd = None"
  shows "updateById (eng \<lparr> schema := sch \<rparr>) drv i upd w = updateById eng drv i upd w
       \<and> (validateId (crud_options eng) i = Inr vid \<longrightarrow>
            (\<exists>rest. calls (snd (updateById eng drv i upd w)) =
                      calls w @ UpdateOne (collection eng) (by_id vid) upd # rest))"
proof -
  have "updateById_try (eng \<lparr> schema := sch \<rparr>) drv i upd w = updateById_try eng drv i upd w"
    using assms by (rule updateById_try_schema_irrelevant)
  then have "updateById (eng \<lparr> schema := sch \<rparr>) drv i upd w = updateById eng drv i upd w"
    by (simp add: updateById_def)
  moreover have "validateId (crud_options eng) i = Inr vid \<longrightarrow>
            (\<exists>rest. calls (snd (updateById eng drv i upd w)) =
                      calls w @ UpdateOne (collection eng) (by_id vid) upd # rest)"
    using assms updateById_calls_updateOne by blast
  ultimately show ?thesis by simp
qed

theorem update_without_set_is_unvalidated_witness:
  "dollar_set no_set = None
   \<and> validateId (crud_options uuid_engine) (StrId ''u7'') = Inr (StrId ''u7'')
   \<and> updateById (uuid_engine \<lparr> schema := reject_all \<rparr>) mem_driver (StrId ''u7'') no_set
        (mem_world three_users)
      = updateById uuid_engine mem_driver (StrId ''u7'') no_set (mem_world three_users)
   \<and> calls (snd (updateById uuid_engine mem_driver (StrId ''u7'') no_set
                   (mem_world three_users))) =
        [UpdateOne (users_of 0) [(''_id'', VStr ''u7'')] no_set,
         FindOne (users_of 0) [(''_id'', VStr ''u7'')]]"
proof -
  have s: "dollar_set no_set = None" by (simp add: no_set_def)
  have c: "calls (snd (updateById uuid_engine mem_driver (StrId ''u7'') no_set
                   (mem_world three_users))) =
        [UpdateOne (users_of 0) [(''_id'', VStr ''u7'')] no_set,
         FindOne (users_of 0) [(''_id'', VStr ''u7'')]]"
    by (simp add: updateById_def updateById_try_def do_updateOne_def do_findOne_def
        validateId_def uuid_engine_def mem_driver_def responding_def mem_world_def
        three_users_def user_def matches_def by_id_def no_set_def)
  show ?thesis
    using update_without_set_is_unvalidated [OF s, where eng = uuid_engine
        and sch = reject_all and drv = mem_driver and i = "StrId ''u7''"
        and w = "mem_world three_users" and vid = "StrId ''u7''"] s u7_valid c
    by simp
qed

subsection \<open>The singleton accessor\<close>

lemma get_existing:
  "globalConnectionManager st = Some a \<Longrightarrow> getConnectionManager env cfg st = (a, st)"
  by (simp add: getConnectionManager_def)

lemma get_managers_existing:
  "globalConnectionManager st = Some a \<Longrightarrow>
   get_managers env cfgs st = (replicate (length cfgs) a, st)"
  by (induction cfgs) (simp_all add: get_existing)

lemma get_first:
  "globalConnectionManager st = None \<Longrightarrow>
   getConnectionManager env cfg st =
     (next_addr st,
      st \<lparr> managers := (managers st)(next_addr st \<mapsto> new_MongoConnectionManager env cfg),
           next_addr := Suc (next_addr st),
           globalConnectionManager := Some (next_addr st) \<rparr>)"
  by (simp add: getConnectionManager_def Let_def)

text \<open>
  C10: when no manager is stored, \<open>getConnectionManager\<close> constructs one from its
  configuration and stores it. Every later call, whatever configuration it is given,
  returns the address of that first manager and changes nothing. After
  \<open>resetConnectionManager\<close> the next call constructs a new manager, at a new address, from
  the configuration of that call.
\<close>

theorem first_call_constructs_later_calls_reuse:
  assumes "globalConnectionManager st = None"
  shows "\<exists>st1. getConnectionManager env cfg st = (next_addr st, st1)
           \<and> managers st1 (next_addr st) = Some (new_MongoConnectionManager env cfg)
           \<and> get_managers env' cfgs st1 = (replicate (length cfgs) (next_addr st), st1)
           \<and> getConnectionManager env' cfg' (resetConnectionManager st1) =
               (Suc (next_addr st),
                st1 \<lparr> managers := (managers st1)
                        (Suc (next_addr st) \<mapsto> new_MongoConnectionManager env' cfg'),
                      next_addr := Suc (Suc (next_addr st)),
                      globalConnectionManager := Some (Suc (next_addr st)) \<rparr>)"
  using assms
  by (simp add: get_first get_managers_existing resetConnectionManager_def)

theorem first_call_constructs_later_calls_reuse_witness:
  "globalConnectionManager initial_module = None
   \<and> fst (getConnectionManager no_env cfg_a initial_module) = 0
   \<and> fst (get_managers no_env [cfg_b, None, cfg_b]
            (snd (getConnectionManager no_env cfg_a initial_module))) = [0, 0, 0]
   \<and> map_option (\<lambda>m. dbName (config m))
        (managers (snd (get_managers no_env [cfg_b, None, cfg_b]
            (snd (getConnectionManager no_env cfg_a initial_module)))) 0) = Some ''a''"
proof -
  have a: "globalConnectionManager initial_module = None"
    by (simp add: initial_module_def)
  show ?thesis
    using first_call_constructs_later_calls_reuse [OF a, of no_env cfg_a no_env
        "[cfg_b, None, cfg_b]" cfg_b] a
    apply (clarsimp simp add: initial_module_def)
    apply (simp add: new_MongoConnectionManager_def cfg_a_def or_else_def no_env_def)
    done
qed

subsection \<open>Bursts of connect calls\<close>

lemma filter_update_count:
  "i < length ts \<Longrightarrow>
   length (filter P (ts[i := b])) + (if P (ts ! i) then 1 else 0)
     = length (filter P ts) + (if P b then 1 else 0)"
proof (induction ts arbitrary: i)
  case Nil
  then show ?case by simp
next
  case (Cons a ts)
  show ?case
  proof (cases i)
    case 0
    then show ?thesis by simp
  next
    case (Suc j)
    with Cons.prems have "j < length ts" by simp
    from Cons.IH [OF this] Suc show ?thesis by simp
  qed
qed

lemma in_flight_update:
  "i < length ts \<Longrightarrow>
   in_flight (ts[i := b]) + (if is_in_flight (ts ! i) then 1 else 0)
     = in_flight ts + (if is_in_flight b then 1 else 0)"
  unfolding in_flight_def by (rule filter_update_count)

lemma failures_update:
  "i < length ts \<Longrightarrow>
   failures (ts[i := b]) + (if is_failure (ts ! i) then 1 else 0)
     = failures ts + (if is_failure b then 1 else 0)"
  unfolding failures_def by (rule filter_update_count)

lemma in_flight_append: "in_flight (ts @ [t]) = in_flight ts + (if is_in_flight t then 1 else 0)"
  by (simp add: in_flight_def)

lemma failures_append: "failures (ts @ [t]) = failures ts + (if is_failure t then 1 else 0)"
  by (simp add: failures_def)

lemma attempts_append: "attempts (tr @ [x]) = attempts tr + (if is_attempt x then 1 else 0)"
  by (simp add: attempts_def)

lemma handles_agree_append:
  "handles_agree h (ts @ [t]) = (handles_agree h ts \<and> same_handle h t)"
  by (simp add: handles_agree_def)

lemma handles_agree_update:
  "handles_agree h ts \<Longrightarrow> same_handle h b \<Longrightarrow> handles_agree h (ts[i := b])"
  unfolding handles_agree_def
  by (induction ts arbitrary: i) (auto split: nat.splits)

lemma handles_agree_None: "handles_agree None ts \<Longrightarrow> handles_agree h ts"
  unfolding handles_agree_def
proof (induction ts)
  case Nil
  then show ?case by simp
next
  case (Cons t ts)
  then show ?case by (cases "(None :: Db option, t)" rule: same_handle.cases) auto
qed

lemma in_flight_pos: "i < length ts \<Longrightarrow> is_in_flight (ts ! i) \<Longrightarrow> 0 < in_flight ts"
proof -
  assume "i < length ts" and "is_in_flight (ts ! i)"
  then have "ts ! i \<in> set (filter is_in_flight ts)" by simp
  then show ?thesis unfolding in_flight_def by (rule length_pos_if_in_set)
qed

lemma conn_inv_call:
  assumes "conn_inv p"
  shows "conn_inv (step CallConnect p)"
proof -
  have live: "exit_code p = None" and ctor: "client_ctor p = None"
    using assms by (simp_all add: conn_inv_def)
  have st: "step CallConnect p = add_task (connect_enter p)"
    using live by (simp add: step_def)
  show ?thesis
  proof (cases "db (mgr p)")
    case (Some d)
    then have con: "isConnected (mgr p)" and nci: "\<not> isConnecting (mgr p)"
      using assms by (simp_all add: conn_inv_def)
    have eq: "step CallConnect p = p \<lparr> tasks := tasks p @ [ConnDone (Inr d)] \<rparr>"
      using st Some con by (simp add: add_task_def connect_enter_def)
    show ?thesis
      using assms Some con nci unfolding eq conn_inv_def
      by (simp add: in_flight_append failures_append handles_agree_append)
  next
    case None
    then have nc: "\<not> isConnected (mgr p)"
      using assms by (simp add: conn_inv_def)
    show ?thesis
    proof (cases "isConnecting (mgr p)")
      case True
      have eq: "step CallConnect p = p \<lparr> tasks := tasks p @ [ConnWaiting] \<rparr>"
        using st nc True by (simp add: add_task_def connect_enter_def)
      have "tasks p \<noteq> []"
        using assms True by (auto simp add: conn_inv_def in_flight_def)
      then show ?thesis
        using assms None nc True unfolding eq conn_inv_def
        by (simp add: in_flight_append failures_append handles_agree_append)
    next
      case False
      have eq: "step CallConnect p =
          p \<lparr> mgr := (mgr p) \<lparr> isConnecting := True, client := Some (next_client p) \<rparr>,
               next_client := Suc (next_client p),
               trace := trace p @ [ClientConnect (next_client p)],
               tasks := tasks p @ [ConnAwait] \<rparr>"
        using st nc False ctor by (simp add: add_task_def connect_enter_def start_attempt_def)
      show ?thesis
        using assms None nc False unfolding eq conn_inv_def
        by (simp add: in_flight_append failures_append handles_agree_append attempts_append)
    qed
  qed
qed

lemma conn_inv_timer:
  assumes "conn_inv p"
  shows "conn_inv (step (TimerFires i) p)"
proof (cases "i < length (tasks p) \<and> tasks p ! i = ConnWaiting")
  case False
  then have "step (TimerFires i) p = p" by (auto simp add: step_def)
  with assms show ?thesis by simp
next
  case True
  then have i: "i < length (tasks p)" and w: "tasks p ! i = ConnWaiting" by simp_all
  then have ne: "tasks p \<noteq> []" by auto
  have live: "exit_code p = None" and ctor: "client_ctor p = None"
    using assms by (simp_all add: conn_inv_def)
  have st: "step (TimerFires i) p = set_task i (connect_wake p)"
    using live True by (simp add: step_def)
  show ?thesis
  proof (cases "isConnecting (mgr p)")
    case True
    then have "step (TimerFires i) p = p"
      using st w i by (simp add: set_task_def connect_wake_def list_update_same_conv)
    with assms show ?thesis by simp
  next
    case False
    note nci = this
    show ?thesis
    proof (cases "db (mgr p)")
      case (Some d)
      define t where "t = ConnDone (Inr d)"
      have eq: "step (TimerFires i) p = p \<lparr> tasks := (tasks p)[i := t] \<rparr>"
        using st nci Some by (simp add: set_task_def connect_wake_def t_def)
      have fl: "in_flight ((tasks p)[i := t]) = in_flight (tasks p)"
        using in_flight_update [OF i, of t] w by (simp add: t_def)
      have fa: "failures ((tasks p)[i := t]) = failures (tasks p)"
        using failures_update [OF i, of t] w by (simp add: t_def)
      have sh: "handles_agree (Some d) ((tasks p)[i := t])"
        using assms Some by (intro handles_agree_update) (simp_all add: conn_inv_def t_def)
      show ?thesis
        using assms Some ne unfolding eq conn_inv_def
        by (simp add: fl fa sh)
    next
      case None
      then have nc: "\<not> isConnected (mgr p)"
        using assms by (simp add: conn_inv_def)
      have eq: "step (TimerFires i) p =
        p \<lparr> mgr := (mgr p) \<lparr> isConnecting := True, client := Some (next_client p) \<rparr>,
             next_client := Suc (next_client p),
             trace := trace p @ [ClientConnect (next_client p)],
             tasks := (tasks p)[i := ConnAwait] \<rparr>"
        using st nci None ctor
        by (simp add: set_task_def connect_wake_def start_attempt_def)
      have fl: "in_flight ((tasks p)[i := ConnAwait]) = Suc (in_flight (tasks p))"
        using in_flight_update [OF i, of ConnAwait] w by simp
      have fa: "failures ((tasks p)[i := ConnAwait]) = failures (tasks p)"
        using failures_update [OF i, of ConnAwait] w by simp
      have sh: "handles_agree None ((tasks p)[i := ConnAwait])"
        using assms None by (intro handles_agree_update) (simp_all add: conn_inv_def)
      show ?thesis
        using assms None nc nci ne unfolding eq conn_inv_def
        by (simp add: fl fa sh attempts_append)
    qed
  qed
qed

lemma conn_inv_settle:
  assumes "conn_inv p"
  shows "conn_inv (step (ConnectSettles i outcome) p)"
proof (cases "i < length (tasks p) \<and> tasks p ! i = ConnAwait")
  case False
  then have "step (ConnectSettles i outcome) p = p" by (auto simp add: step_def)
  with assms show ?thesis by simp
next
  case True
  then have i: "i < length (tasks p)" and w: "tasks p ! i = ConnAwait" by simp_all
  then have ne: "tasks p \<noteq> []" by auto
  have live: "exit_code p = None" and ctor: "client_ctor p = None"
    using assms by (simp_all add: conn_inv_def)
  have "0 < in_flight (tasks p)"
    using i w by (intro in_flight_pos [of i]) simp_all
  then have ing: "isConnecting (mgr p)"
    using assms by (auto simp add: conn_inv_def split: if_splits)
  then have nc: "\<not> isConnected (mgr p)" and nodb: "db (mgr p) = None"
    using assms by (auto simp add: conn_inv_def)
  obtain c where c: "client (mgr p) = Some c"
    using assms ing by (auto simp add: conn_inv_def)
  have one: "in_flight (tasks p) = 1"
    using assms ing by (simp add: conn_inv_def)
  have att: "attempts (trace p) = Suc (failures (tasks p))"
    using assms ing nc by (simp add: conn_inv_def)
  have old: "handles_agree None (tasks p)"
    using assms nodb by (simp add: conn_inv_def)
  have st: "step (ConnectSettles i outcome) p = set_task i (connect_settle outcome p)"
    using live True by (simp add: step_def)
  show ?thesis
  proof (cases outcome)
    case (Some e)
    define t where "t = ConnDone (Inl (connect_failed e))"
    have eq: "step (ConnectSettles i outcome) p =
        p \<lparr> mgr := (mgr p) \<lparr> isConnecting := False \<rparr>, tasks := (tasks p)[i := t] \<rparr>"
      using st Some by (simp add: set_task_def connect_settle_def t_def)
    have fl: "in_flight ((tasks p)[i := t]) = 0"
      using in_flight_update [OF i, of t] w one by (simp add: t_def)
    have fa: "failures ((tasks p)[i := t]) = attempts (trace p)"
      using failures_update [OF i, of t] w att by (simp add: t_def)
    have sh: "handles_agree None ((tasks p)[i := t])"
      using old by (intro handles_agree_update) (simp_all add: t_def)
    have pos: "Suc 0 \<le> attempts (trace p)"
      using att by simp
    show ?thesis
      unfolding eq conn_inv_def
      by (simp add: live ctor nc nodb fl fa sh pos)
  next
    case None
    define d where "d = \<lparr> db_client = c, db_name = dbName (config (mgr p)) \<rparr>"
    define t where "t = ConnDone (Inr d)"
    from None c have eq: "step (ConnectSettles i outcome) p =
        p \<lparr> mgr := (mgr p) \<lparr> db := Some d, isConnected := True, isConnecting := False \<rparr>,
             listeners := listeners p @ [SIGINT, SIGTERM, SIGQUIT],
             tasks := (tasks p)[i := t] \<rparr>"
      using st
      by (simp add: set_task_def connect_settle_def setupShutdownHandlers_def d_def t_def
          Let_def)
    have fl: "in_flight ((tasks p)[i := t]) = 0"
      using in_flight_update [OF i, of t] w one by (simp add: t_def)
    have fa: "Suc (failures ((tasks p)[i := t])) = attempts (trace p)"
      using failures_update [OF i, of t] w att by (simp add: t_def)
    have "handles_agree (Some d) (tasks p)"
      using old by (rule handles_agree_None)
    then have sh: "handles_agree (Some d) ((tasks p)[i := t])"
      by (rule handles_agree_update) (simp add: t_def)
    have pos: "Suc 0 \<le> attempts (trace p)"
      using att by simp
    have ne': "(tasks p)[i := t] \<noteq> []"
      using ne by simp
    show ?thesis
      unfolding eq conn_inv_def
      by (simp add: live ctor fl fa [symmetric] sh ne' ne)
  qed
qed

lemma conn_inv_step:
  "conn_inv p \<Longrightarrow> connect_event ev \<Longrightarrow> conn_inv (step ev p)"
  by (cases ev) (simp_all add: conn_inv_call conn_inv_timer conn_inv_settle)

lemma conn_inv_run:
  "conn_inv p \<Longrightarrow> list_all connect_event evs \<Longrightarrow> conn_inv (run evs p)"
  by (induction evs arbitrary: p) (simp_all add: conn_inv_step)

lemma conn_inv_new:
  "conn_inv (new_process (new_MongoConnectionManager env cfg))"
  by (simp add: conn_inv_def new_process_def new_MongoConnectionManager_def
      attempts_def in_flight_def failures_def handles_agree_def)

lemma wake_after_success:
  assumes "conn_inv p" and "i < length (tasks p)" and "tasks p ! i = ConnWaiting"
      and "db (mgr p) = Some d"
  shows "tasks (step (TimerFires i) p) ! i = ConnDone (Inr d)"
proof -
  have "isConnected (mgr p)" using assms by (simp add: conn_inv_def)
  then have "\<not> isConnecting (mgr p)" using assms by (simp add: conn_inv_def)
  moreover have "exit_code p = None" using assms by (simp add: conn_inv_def)
  ultimately show ?thesis
    using assms(2-4) by (simp add: step_def set_task_def connect_wake_def)
qed

lemma call_while_connecting:
  assumes "conn_inv p" and "isConnecting (mgr p)"
  shows "step CallConnect p = p \<lparr> tasks := tasks p @ [ConnWaiting] \<rparr>"
proof -
  have "\<not> isConnected (mgr p)" and "exit_code p = None"
    using assms by (auto simp add: conn_inv_def)
  then show ?thesis
    using assms(2) by (simp add: step_def add_task_def connect_enter_def)
qed

lemma failure_reaches_issuer:
  assumes "conn_inv p" and "i < length (tasks p)" and "tasks p ! i = ConnAwait"
  shows "tasks (step (ConnectSettles i (Some e)) p)
           = (tasks p)[i := ConnDone (Inl (connect_failed e))]"
    and "trace (step (ConnectSettles i (Some e)) p) = trace p"
    and "\<not> isConnecting (mgr (step (ConnectSettles i (Some e)) p))"
    and "db (mgr (step (ConnectSettles i (Some e)) p)) = None"
proof -
  have live: "exit_code p = None"
    using assms(1) by (simp add: conn_inv_def)
  have "0 < in_flight (tasks p)"
    using assms(2,3) by (intro in_flight_pos [of i]) simp_all
  then have "isConnecting (mgr p)"
    using assms(1) by (auto simp add: conn_inv_def split: if_splits)
  then have nodb: "db (mgr p) = None"
    using assms(1) by (auto simp add: conn_inv_def)
  have eq: "step (ConnectSettles i (Some e)) p =
      p \<lparr> mgr := (mgr p) \<lparr> isConnecting := False \<rparr>,
          tasks := (tasks p)[i := ConnDone (Inl (connect_failed e))] \<rparr>"
    using live assms(2,3) by (simp add: step_def set_task_def connect_settle_def)
  show "tasks (step (ConnectSettles i (Some e)) p)
           = (tasks p)[i := ConnDone (Inl (connect_failed e))]"
    unfolding eq by simp
  show "trace (step (ConnectSettles i (Some e)) p) = trace p"
    unfolding eq by simp
  show "\<not> isConnecting (mgr (step (ConnectSettles i (Some e)) p))"
    unfolding eq by simp
  show "db (mgr (step (ConnectSettles i (Some e)) p)) = None"
    unfolding eq using nodb by simp
qed

lemma waiter_keeps_waiting:
  assumes "i < length (tasks p)" and "tasks p ! i = ConnWaiting" and "isConnecting (mgr p)"
  shows "step (TimerFires i) p = p"
  using assms
  by (simp add: step_def set_task_def connect_wake_def list_update_same_conv)

lemma waiter_retries:
  assumes "conn_inv p" and "i < length (tasks p)" and "tasks p ! i = ConnWaiting"
      and "\<not> isConnecting (mgr p)" and "db (mgr p) = None"
  shows "tasks (step (TimerFires i) p) = (tasks p)[i := ConnAwait]"
    and "trace (step (TimerFires i) p) = trace p @ [ClientConnect (next_client p)]"
proof -
  have live: "exit_code p = None" and ctor: "client_ctor p = None"
    using assms(1) by (simp_all add: conn_inv_def)
  have eq: "step (TimerFires i) p =
      p \<lparr> mgr := (mgr p) \<lparr> isConnecting := True, client := Some (next_client p) \<rparr>,
          next_client := Suc (next_client p),
          trace := trace p @ [ClientConnect (next_client p)],
          tasks := (tasks p)[i := ConnAwait] \<rparr>"
    using live ctor assms(2-5)
    by (simp add: step_def set_task_def connect_wake_def start_attempt_def)
  show "tasks (step (TimerFires i) p) = (tasks p)[i := ConnAwait]"
    unfolding eq by simp
  show "trace (step (TimerFires i) p) = trace p @ [ClientConnect (next_client p)]"
    unfolding eq by simp
qed

text \<open>
  C4, as stated, fails when the attempt fails: the failure reaches only the caller that
  issued the attempt. Two callers call \<open>connect\<close>, the attempt of the first is rejected,
  and the timer of the second fires: the second caller, finding no handle, issues a
  connection attempt of its own, so two attempts have been issued and the second caller
  has not observed the failure of the first.
\<close>

theorem waiter_retries_after_failure_counterexample:
  "trace (run [CallConnect, CallConnect, ConnectSettles 0 (Some (Error ''down'')), TimerFires 1]
            fresh_process) = [ClientConnect 0, ClientConnect 1]
   \<and> tasks (run [CallConnect, CallConnect, ConnectSettles 0 (Some (Error ''down'')),
                 TimerFires 1] fresh_process)
       = [ConnDone (Inl (Error ''Failed to connect to MongoDB: down'')), ConnAwait]"
  by code_simp

text \<open>
  C4, amended: in every burst of \<open>connect\<close> calls on a new manager, in whatever order
  calls arrive, timers fire and attempts settle, at most one connection attempt is in
  flight at any time, and a caller that arrives while one is in flight waits without
  issuing another, and goes on waiting when its timer fires while the attempt is in
  flight. The number of attempts issued is at most the number of failed calls plus one,
  and it is exactly one once a call has been made and as long as none has failed. Every
  handle returned is the manager's one handle, and a caller that is still waiting once
  the manager holds a handle returns that handle when its timer fires next. When an
  attempt is rejected, the caller that issued it, and no other, ends with the failure
  (\<^verbatim>\<open>Failed to connect to MongoDB: \<close> and the cause); no handle is stored, and a waiting
  caller whose timer fires then, with no attempt in flight and no handle, issues the next
  connection attempt itself.
\<close>

theorem connect_burst:
  assumes "list_all connect_event evs"
      and "p = run evs (new_process (new_MongoConnectionManager env cfg))"
  shows "in_flight (tasks p) \<le> 1
       \<and> attempts (trace p) \<le> failures (tasks p) + 1
       \<and> (failures (tasks p) = 0 \<and> tasks p \<noteq> [] \<longrightarrow> attempts (trace p) = 1)
       \<and> (isConnecting (mgr p) \<longrightarrow> step CallConnect p = p \<lparr> tasks := tasks p @ [ConnWaiting] \<rparr>)
       \<and> handles_agree (db (mgr p)) (tasks p)
       \<and> (i < length (tasks p) \<and> tasks p ! i = ConnWaiting \<and> db (mgr p) = Some d
            \<longrightarrow> tasks (step (TimerFires i) p) ! i = ConnDone (Inr d))
       \<and> (i < length (tasks p) \<and> tasks p ! i = ConnWaiting \<and> isConnecting (mgr p)
            \<longrightarrow> step (TimerFires i) p = p)
       \<and> (i < length (tasks p) \<and> tasks p ! i = ConnAwait
            \<longrightarrow> tasks (step (ConnectSettles i (Some e)) p)
                  = (tasks p)[i := ConnDone (Inl (connect_failed e))]
                \<and> trace (step (ConnectSettles i (Some e)) p) = trace p
                \<and> \<not> isConnecting (mgr (step (ConnectSettles i (Some e)) p))
                \<and> db (mgr (step (ConnectSettles i (Some e)) p)) = None)
       \<and> (i < length (tasks p) \<and> tasks p ! i = ConnWaiting
            \<and> \<not> isConnecting (mgr p) \<and> db (mgr p) = None
            \<longrightarrow> tasks (step (TimerFires i) p) = (tasks p)[i := ConnAwait]
                \<and> trace (step (TimerFires i) p) = trace p @ [ClientConnect (next_client p)])"
proof -
  have inv: "conn_inv p"
    unfolding assms(2) using conn_inv_new assms(1) by (rule conn_inv_run)
  have a: "in_flight (tasks p) \<le> 1"
    using inv by (simp add: conn_inv_def)
  have b: "attempts (trace p) \<le> failures (tasks p) + 1"
    using inv by (simp add: conn_inv_def)
  have c: "failures (tasks p) = 0 \<and> tasks p \<noteq> [] \<longrightarrow> attempts (trace p) = 1"
    using inv by (auto simp add: conn_inv_def)
  have d: "handles_agree (db (mgr p)) (tasks p)"
    using inv by (simp add: conn_inv_def)
  show ?thesis
    using a b c d call_while_connecting [OF inv] wake_after_success [OF inv, of i d]
      waiter_keeps_waiting [of i p] failure_reaches_issuer [OF inv, of i e]
      waiter_retries [OF inv, of i]
    by blast
qed

theorem connect_burst_witness:
  "list_all connect_event [CallConnect, CallConnect, CallConnect, ConnectSettles 0 None,
                           TimerFires 2]
   \<and> attempts (trace (run [CallConnect, CallConnect, CallConnect, ConnectSettles 0 None,
                           TimerFires 2] fresh_process)) = 1
   \<and> tasks (run [CallConnect, CallConnect, CallConnect, ConnectSettles 0 None, TimerFires 2]
             fresh_process) = [ConnDone (Inr (test_db 0)), ConnWaiting, ConnDone (Inr (test_db 0))]
   \<and> tasks (step (TimerFires 1)
        (run [CallConnect, CallConnect, CallConnect, ConnectSettles 0 None, TimerFires 2]
           fresh_process)) ! 1 = ConnDone (Inr (test_db 0))
   \<and> list_all connect_event [CallConnect, CallConnect]
   \<and> tasks (run [CallConnect, CallConnect] fresh_process) = [ConnAwait, ConnWaiting]
   \<and> isConnecting (mgr (run [CallConnect, CallConnect] fresh_process))
   \<and> step (TimerFires 1) (run [CallConnect, CallConnect] fresh_process)
       = run [CallConnect, CallConnect] fresh_process
   \<and> tasks (step (ConnectSettles 0 (Some (Error ''down'')))
               (run [CallConnect, CallConnect] fresh_process))
       = [ConnDone (Inl (Error ''Failed to connect to MongoDB: down'')), ConnWaiting]
   \<and> list_all connect_event [CallConnect, CallConnect, ConnectSettles 0 (Some (Error ''down''))]
   \<and> \<not> isConnecting (mgr (run [CallConnect, CallConnect,
                                  ConnectSettles 0 (Some (Error ''down''))] fresh_process))
   \<and> db (mgr (run [CallConnect, CallConnect, ConnectSettles 0 (Some (Error ''down''))]
                fresh_process)) = None
   \<and> tasks (step (TimerFires 1)
               (run [CallConnect, CallConnect, ConnectSettles 0 (Some (Error ''down''))]
                  fresh_process))
       = [ConnDone (Inl (Error ''Failed to connect to MongoDB: down'')), ConnAwait]
   \<and> trace (step (TimerFires 1)
               (run [CallConnect, CallConnect, ConnectSettles 0 (Some (Error ''down''))]
                  fresh_process))
       = [ClientConnect 0, ClientConnect 1]"
proof -
  let ?evs = "[CallConnect, CallConnect, CallConnect, ConnectSettles 0 None, TimerFires 2]"
  let ?two = "[CallConnect, CallConnect]"
  let ?failed = "[CallConnect, CallConnect, ConnectSettles 0 (Some (Error ''down''))]"
  have a: "list_all connect_event ?evs" by simp
  have t: "tasks (run ?evs fresh_process) =
             [ConnDone (Inr (test_db 0)), ConnWaiting, ConnDone (Inr (test_db 0))]"
    by code_simp
  have m: "db (mgr (run ?evs fresh_process)) = Some (test_db 0)"
    by code_simp
  have f: "failures (tasks (run ?evs fresh_process)) = 0"
    unfolding t by (simp add: failures_def)
  have first: "attempts (trace (run ?evs fresh_process)) = 1
      \<and> tasks (step (TimerFires 1) (run ?evs fresh_process)) ! 1 = ConnDone (Inr (test_db 0))"
    using connect_burst [OF a, where p = "run ?evs fresh_process" and env = no_env
        and cfg = None and i = 1 and d = "test_db 0"] t m f
    by (simp add: fresh_process_def)
  have a2: "list_all connect_event ?two" by simp
  have t2: "tasks (run ?two fresh_process) = [ConnAwait, ConnWaiting]" by code_simp
  have m2: "isConnecting (mgr (run ?two fresh_process))" by code_simp
  have wait: "step (TimerFires 1) (run ?two fresh_process) = run ?two fresh_process"
    using connect_burst [OF a2, where p = "run ?two fresh_process" and env = no_env
        and cfg = None and i = 1] t2 m2
    by (simp add: fresh_process_def)
  have fail: "tasks (step (ConnectSettles 0 (Some (Error ''down''))) (run ?two fresh_process))
       = [ConnDone (Inl (Error ''Failed to connect to MongoDB: down'')), ConnWaiting]"
    using connect_burst [OF a2, where p = "run ?two fresh_process" and env = no_env
        and cfg = None and i = 0 and e = "Error ''down''"] t2
    by (simp add: fresh_process_def connect_failed_def)
  have a3: "list_all connect_event ?failed" by simp
  have t3: "tasks (run ?failed fresh_process)
       = [ConnDone (Inl (Error ''Failed to connect to MongoDB: down'')), ConnWaiting]"
    by code_simp
  have m3: "\<not> isConnecting (mgr (run ?failed fresh_process))" by code_simp
  have d3: "db (mgr (run ?failed fresh_process)) = None" by code_simp
  have tr3: "trace (run ?failed fresh_process) = [ClientConnect 0]" by code_simp
  have n3: "next_client (run ?failed fresh_process) = 1" by code_simp
  have retry: "tasks (step (TimerFires 1) (run ?failed fresh_process))
       = [ConnDone (Inl (Error ''Failed to connect to MongoDB: down'')), ConnAwait]
     \<and> trace (step (TimerFires 1) (run ?failed fresh_process))
       = [ClientConnect 0, ClientConnect 1]"
    using connect_burst [OF a3, where p = "run ?failed fresh_process" and env = no_env
        and cfg = None and i = 1] t3 m3 d3 tr3 n3
    by (simp add: fresh_process_def)
  show ?thesis
    using a t first a2 t2 m2 wait fail a3 m3 d3 retry by blast
qed

subsection \<open>The shutdown path\<close>

lemma shutdown_enter_with_client:
  "client (mgr p) = Some c \<Longrightarrow>
   (shutdown_enter ^^ n) p =
     p \<lparr> trace := trace p @ replicate n (ClientClose c),
         tasks := tasks p @ replicate n ShutAwait \<rparr>"
proof (induction n)
  case 0
  then show ?case by simp
next
  case (Suc n)
  then show ?case
    by (simp add: shutdown_enter_def disconnect_enter_def replicate_append_same)
qed

lemma shutdown_enter_without_client:
  "client (mgr p) = None \<Longrightarrow>
   (shutdown_enter ^^ n) p = p \<lparr> tasks := tasks p @ replicate n (ShutResume (Inr ())) \<rparr>"
proof (induction n)
  case 0
  then show ?case by simp
next
  case (Suc n)
  then show ?case
    by (simp add: shutdown_enter_def disconnect_enter_def replicate_append_same)
qed

lemma resumed_waiting: "resumed (replicate n ShutAwait) = None"
  by (induction n) simp_all

lemma resumed_ready: "0 < n \<Longrightarrow> resumed (replicate n (ShutResume r)) = Some r"
  by (cases n) simp_all

lemma signal_with_client:
  assumes "exit_code p = None" and "client (mgr p) = Some c"
  shows "step (Signal sg) p =
           p \<lparr> trace := trace p @ replicate (count_list (listeners p) sg) (ClientClose c),
               tasks := tasks p @ replicate (count_list (listeners p) sg) ShutAwait \<rparr>"
  using assms
  by (simp add: step_def shutdown_enter_with_client resumed_waiting)

lemma signal_without_client:
  assumes "exit_code p = None" and "client (mgr p) = None"
      and "0 < count_list (listeners p) sg"
  shows "exit_code (step (Signal sg) p) = Some 0"
  using assms
  by (simp add: step_def shutdown_enter_without_client resumed_ready exit_with_def
      shutdown_code_def)

lemma close_settles_shutdown:
  assumes "exit_code p = None" and "i < length (tasks p)" and "tasks p ! i = ShutAwait"
  shows "exit_code (step (CloseSettles i None) p) = Some 0"
    and "client (mgr (step (CloseSettles i None) p)) = None"
    and "db (mgr (step (CloseSettles i None) p)) = None"
    and "\<not> isConnected (mgr (step (CloseSettles i None) p))"
    and "exit_code (step (CloseSettles i (Some e)) p) = Some 1"
  using assms
  by (simp_all add: step_def disconnect_settle_def exit_with_def set_task_def
      shutdown_code_def)

lemma count_three: "count_list (xs @ [SIGINT, SIGTERM, SIGQUIT]) sg = Suc (count_list xs sg)"
  by (cases sg) simp_all

lemma establishment_registers:
  assumes "exit_code p = None" and "j < length (tasks p)" and "tasks p ! j = ConnAwait"
      and "client (mgr p) = Some c"
  shows "count_list (listeners (step (ConnectSettles j None) p)) sg
           = Suc (count_list (listeners p) sg)"
proof -
  have "listeners (step (ConnectSettles j None) p) = listeners p @ [SIGINT, SIGTERM, SIGQUIT]"
    using assms
    by (simp add: step_def connect_settle_def set_task_def setupShutdownHandlers_def Let_def)
  then show ?thesis by (simp only: count_three)
qed

lemma exited_is_inert: "exit_code q \<noteq> None \<Longrightarrow> run evs q = q"
  by (induction evs) (simp_all add: step_def)

text \<open>
  C3, as stated, fails: nothing limits the shutdown closure to one run. After one
  successful \<open>connect\<close>, two signals start it twice and \<^verbatim>\<open>client.close()\<close> is called twice;
  after a connect, a disconnect and a second connect, two closures are registered for
  each signal and a single signal starts both.
\<close>

theorem shutdown_runs_twice_counterexample:
  "shutdown_runs (run [CallConnect, ConnectSettles 0 None, Signal SIGINT, Signal SIGTERM]
                    fresh_process) = 2
   \<and> trace (run [CallConnect, ConnectSettles 0 None, Signal SIGINT, Signal SIGTERM]
               fresh_process) = [ClientConnect 0, ClientClose 0, ClientClose 0]
   \<and> shutdown_runs (run [CallConnect, ConnectSettles 0 None, CallDisconnect,
                          CloseSettles 1 None, CallConnect, ConnectSettles 2 None,
                          Signal SIGINT] fresh_process) = 2"
  by code_simp

text \<open>
  C3, amended: in a process that has not exited, each run of the shutdown closure runs
  \<open>disconnect\<close> and then exits: with code 0 when the close succeeds (the manager is then
  disconnected) or when there was no client to close, with code 1 when the close fails;
  after the exit nothing happens any more. A signal starts one run for every closure
  registered for it, and every connection that is established registers one more closure
  for each of the three signals.
\<close>

theorem shutdown_path:
  assumes "exit_code p = None"
  shows "(i < length (tasks p) \<and> tasks p ! i = ShutAwait \<longrightarrow>
            exit_code (step (CloseSettles i None) p) = Some 0
            \<and> client (mgr (step (CloseSettles i None) p)) = None
            \<and> \<not> isConnected (mgr (step (CloseSettles i None) p))
            \<and> exit_code (step (CloseSettles i (Some e)) p) = Some 1
            \<and> run evs (step (CloseSettles i None) p) = step (CloseSettles i None) p)
       \<and> (client (mgr p) = None \<and> 0 < count_list (listeners p) sg \<longrightarrow>
            exit_code (step (Signal sg) p) = Some 0)
       \<and> (client (mgr p) = Some c \<longrightarrow>
            step (Signal sg) p =
              p \<lparr> trace := trace p @ replicate (count_list (listeners p) sg) (ClientClose c),
                  tasks := tasks p @ replicate (count_list (listeners p) sg) ShutAwait \<rparr>)
       \<and> (j < length (tasks p) \<and> tasks p ! j = ConnAwait \<and> client (mgr p) = Some c \<longrightarrow>
            count_list (listeners (step (ConnectSettles j None) p)) sg
              = Suc (count_list (listeners p) sg))"
proof -
  have inert: "run evs (step (CloseSettles i None) p) = step (CloseSettles i None) p"
    if "i < length (tasks p)" and "tasks p ! i = ShutAwait"
    using close_settles_shutdown(1) [OF assms that] by (intro exited_is_inert) simp
  show ?thesis
    using close_settles_shutdown [OF assms] inert
      signal_without_client [OF assms]
      signal_with_client [OF assms]
      establishment_registers [OF assms]
    by blast
qed

theorem shutdown_path_witness:
  "exit_code (run [Signal SIGTERM] connected_once) = None
   \<and> 1 < length (tasks (run [Signal SIGTERM] connected_once))
   \<and> tasks (run [Signal SIGTERM] connected_once) ! 1 = ShutAwait
   \<and> exit_code (step (CloseSettles 1 None) (run [Signal SIGTERM] connected_once)) = Some 0
   \<and> exit_code (step (CloseSettles 1 (Some (Error ''close failed'')))
                  (run [Signal SIGTERM] connected_once)) = Some 1
   \<and> client (mgr (run [Signal SIGTERM] connected_once)) = Some 0
   \<and> shutdown_runs (step (Signal SIGINT) (run [Signal SIGTERM] connected_once)) = 2
   \<and> client (mgr (run [CallDisconnect, CloseSettles 1 None] connected_once)) = None
   \<and> exit_code (run [CallDisconnect, CloseSettles 1 None] connected_once) = None
   \<and> 0 < count_list (listeners (run [CallDisconnect, CloseSettles 1 None] connected_once)) SIGINT
   \<and> exit_code (step (Signal SIGINT) (run [CallDisconnect, CloseSettles 1 None] connected_once))
       = Some 0
   \<and> 2 < length (tasks (run [CallDisconnect, CloseSettles 1 None, CallConnect] connected_once))
   \<and> tasks (run [CallDisconnect, CloseSettles 1 None, CallConnect] connected_once) ! 2 = ConnAwait
   \<and> client (mgr (run [CallDisconnect, CloseSettles 1 None, CallConnect] connected_once)) = Some 1
   \<and> count_list (listeners (step (ConnectSettles 2 None)
         (run [CallDisconnect, CloseSettles 1 None, CallConnect] connected_once))) SIGINT = 2"
proof -
  let ?p = "run [Signal SIGTERM] connected_once"
  let ?q = "run [CallDisconnect, CloseSettles 1 None] connected_once"
  let ?r = "run [CallDisconnect, CloseSettles 1 None, CallConnect] connected_once"
  have p1: "exit_code ?p = None" by code_simp
  have p2: "1 < length (tasks ?p)" by code_simp
  have p3: "tasks ?p ! 1 = ShutAwait" by code_simp
  have p4: "client (mgr ?p) = Some 0" by code_simp
  have p5: "tasks ?p = [ConnDone (Inr (test_db 0)), ShutAwait]" by code_simp
  have p6: "count_list (listeners ?p) SIGINT = 1" by code_simp
  have q1: "exit_code ?q = None" by code_simp
  have q2: "client (mgr ?q) = None" by code_simp
  have q3: "0 < count_list (listeners ?q) SIGINT" by code_simp
  have r1: "exit_code ?r = None" by code_simp
  have r2: "2 < length (tasks ?r)" by code_simp
  have r3: "tasks ?r ! 2 = ConnAwait" by code_simp
  have r4: "client (mgr ?r) = Some 1" by code_simp
  have r5: "count_list (listeners ?r) SIGINT = 1" by code_simp
  have a: "exit_code (step (CloseSettles 1 None) ?p) = Some 0
      \<and> exit_code (step (CloseSettles 1 (Some (Error ''close failed''))) ?p) = Some 1
      \<and> shutdown_runs (step (Signal SIGINT) ?p) = 2"
    using shutdown_path [OF p1, of 1 "Error ''close failed''" "[]" SIGINT 0 0] p2 p3 p4 p5 p6
    by (simp add: shutdown_runs_def)
  have b: "exit_code (step (Signal SIGINT) ?q) = Some 0"
    using shutdown_path [OF q1, of 0 "Error []" "[]" SIGINT 0 0] q2 q3 by simp
  have c: "count_list (listeners (step (ConnectSettles 2 None) ?r)) SIGINT = 2"
    using shutdown_path [OF r1, of 0 "Error []" "[]" SIGINT 1 2] r2 r3 r4 r5 by simp
  show ?thesis
    using p1 p2 p3 p4 q1 q2 q3 r2 r3 r4 a b c by blast
qed

subsection \<open>The handle an engine works on\<close>

lemma bound_atI:
  assumes "op (w \<lparr> mgrs := h \<rparr>) = with_mgrs h (op w)"
      and "\<exists>cs. calls (snd (op w)) = calls w @ cs \<and> list_all (\<lambda>x. call_target x = c) cs"
  shows "bound_at h w c op"
  using assms unfolding bound_at_def on_collection_def by auto

lemma findById_bound: "bound_at h w (collection eng) (findById eng drv i)"
  by (rule bound_atI)
     (auto simp add: findById_def findById_try_def do_findOne_def with_mgrs_def
        split: sum.splits prod.splits option.splits)

lemma create_bound: "bound_at h w (collection eng) (create eng drv rnd d)"
  by (rule bound_atI)
     (auto simp add: create_def create_try_def do_insertOne_def with_mgrs_def Let_def
        split: sum.splits prod.splits)

lemma findMany_bound: "bound_at h w (collection eng) (findMany eng drv fa oa)"
  by (rule bound_atI)
     (auto simp add: findMany_def findMany_try_unfold do_toArray_def do_countDocuments_def
        with_mgrs_def split: sum.splits prod.splits)

lemma updateById_bound: "bound_at h w (collection eng) (updateById eng drv i upd)"
  by (rule bound_atI)
     (auto simp add: updateById_def updateById_try_def do_updateOne_def do_findOne_def
        with_mgrs_def split: sum.splits prod.splits)

lemma deleteById_bound: "bound_at h w (collection eng) (deleteById eng drv i)"
  by (rule bound_atI)
     (auto simp add: deleteById_def deleteById_try_def do_deleteOne_def with_mgrs_def
        split: sum.splits prod.splits)

lemma deleteMany_bound: "bound_at h w (collection eng) (deleteMany eng drv flt)"
  by (rule bound_atI)
     (auto simp add: deleteMany_def deleteMany_try_def do_deleteMany_def with_mgrs_def
        split: sum.splits prod.splits)

lemma exists_bound: "bound_at h w (collection eng) (exists_doc eng drv i)"
  by (rule bound_atI)
     (auto simp add: exists_doc_def exists_try_def do_countDocuments_def with_mgrs_def
        split: sum.splits prod.splits)

lemma count_bound: "bound_at h w (collection eng) (count_docs eng drv fa)"
  by (rule bound_atI)
     (auto simp add: count_docs_def do_countDocuments_def with_mgrs_def
        split: sum.splits prod.splits)

lemma constructor_captures:
  assumes "new_MongoCRUD cm sch opts w = Inr eng"
  shows "\<exists>m d. mgrs w cm = Some m \<and> getDb m = Inr d
           \<and> collection eng = \<lparr> coll_db = d, collectionName = collectionName_opt opts \<rparr>"
  using assms by (auto simp add: new_MongoCRUD_def split: option.splits sum.splits)

lemma mgr_connected_once:
  "mgr connected_once =
     \<lparr> client = Some 0, db = Some (test_db 0),
       config = \<lparr> uri = ''mongodb://localhost:27017'', dbName = ''test'',
                  options = default_options \<rparr>,
       isConnected = True, isConnecting = False \<rparr>"
  by code_simp

lemma mgr_reconnected:
  "mgr reconnected =
     \<lparr> client = Some 1, db = Some (test_db 1),
       config = \<lparr> uri = ''mongodb://localhost:27017'', dbName = ''test'',
                  options = default_options \<rparr>,
       isConnected = True, isConnecting = False \<rparr>"
  by code_simp

lemma engine_at_first_connection:
  "new_MongoCRUD 0 UserSchema \<lparr> useObjectId = None, collectionName_opt = ''users'' \<rparr>
     (world_of connected_once three_users) = Inr uuid_engine"
  by (simp add: new_MongoCRUD_def world_of_def mgr_connected_once getDb_def uuid_engine_def
      users_of_def test_db_def)

lemma lookup_after_reconnect:
  "calls (snd (findById uuid_engine mem_driver (StrId ''u1'')
                 (world_of reconnected three_users)))
     = [FindOne \<lparr> coll_db = test_db 0, collectionName = ''users'' \<rparr> [(''_id'', VStr ''u1'')]]"
  by (simp add: world_of_def users_of_def test_db_def uuid_engine_def findById_def
      findById_try_def do_findOne_def validateId_def by_id_def mem_driver_def responding_def
      split: prod.splits option.splits)

text \<open>
  C2, as stated, fails: an operation does not read the manager's handle at the time of the
  call. An engine is constructed while the manager is connected through client 0; the
  manager is then disconnected and connected again, so that its current handle is the
  database through client 1; a lookup through the engine is still issued on the collection
  of the handle through client 0.
\<close>

theorem stale_handle_counterexample:
  "new_MongoCRUD 0 UserSchema \<lparr> useObjectId = None, collectionName_opt = ''users'' \<rparr>
     (world_of connected_once three_users) = Inr uuid_engine
   \<and> getDb (mgr reconnected) = Inr (test_db 1)
   \<and> test_db 1 \<noteq> test_db 0
   \<and> calls (snd (findById uuid_engine mem_driver (StrId ''u1'')
                   (world_of reconnected three_users)))
       = [FindOne \<lparr> coll_db = test_db 0, collectionName = ''users'' \<rparr> [(''_id'', VStr ''u1'')]]"
  using engine_at_first_connection lookup_after_reconnect
  by (simp add: mgr_reconnected getDb_def test_db_def)

text \<open>
  C2, amended: the constructor reads the manager's handle once, through \<open>getDb\<close>, and the
  engine keeps the collection of that handle. Every operation of the engine gives the
  same outcome whatever the manager objects are at the time of the call, and every driver
  call it makes is issued on the collection captured at construction.
\<close>

theorem engine_uses_captured_collection:
  "(new_MongoCRUD cm sch opts wc = Inr eng \<longrightarrow>
      (\<exists>m d. mgrs wc cm = Some m \<and> getDb m = Inr d
         \<and> collection eng = \<lparr> coll_db = d, collectionName = collectionName_opt opts \<rparr>))
   \<and> bound_at h w (collection eng) (create eng drv rnd d)
   \<and> bound_at h w (collection eng) (findById eng drv i)
   \<and> bound_at h w (collection eng) (findMany eng drv filter_arg options_arg)
   \<and> bound_at h w (collection eng) (updateById eng drv i upd)
   \<and> bound_at h w (collection eng) (deleteById eng drv i)
   \<and> bound_at h w (collection eng) (deleteMany eng drv flt)
   \<and> bound_at h w (collection eng) (exists_doc eng drv i)
   \<and> bound_at h w (collection eng) (count_docs eng drv filter_arg)"
proof -
  have "new_MongoCRUD cm sch opts wc = Inr eng \<longrightarrow>
      (\<exists>m d. mgrs wc cm = Some m \<and> getDb m = Inr d
         \<and> collection eng = \<lparr> coll_db = d, collectionName = collectionName_opt opts \<rparr>)"
    using constructor_captures [of cm sch opts wc eng] by blast
  then show ?thesis
    by (intro conjI create_bound findById_bound findMany_bound updateById_bound
        deleteById_bound deleteMany_bound exists_bound count_bound)
qed

theorem engine_uses_captured_collection_witness:
  "new_MongoCRUD 0 UserSchema \<lparr> useObjectId = None, collectionName_opt = ''users'' \<rparr>
     (world_of connected_once three_users) = Inr uuid_engine
   \<and> getDb (mgr connected_once) = Inr (test_db 0)
   \<and> collection uuid_engine = \<lparr> coll_db = test_db 0, collectionName = ''users'' \<rparr>
   \<and> findById uuid_engine mem_driver (StrId ''u1'') (world_of reconnected three_users)
       = with_mgrs [0 \<mapsto> mgr reconnected]
           (findById uuid_engine mem_driver (StrId ''u1'') (world_of connected_once three_users))"
proof -
  have b: "(world_of connected_once three_users) \<lparr> mgrs := [0 \<mapsto> mgr reconnected] \<rparr>
             = world_of reconnected three_users"
    by (simp add: world_of_def)
  have c: "getDb (mgr connected_once) = Inr (test_db 0)"
    by (simp add: mgr_connected_once getDb_def)
  have m: "mgrs (world_of connected_once three_users) 0 = Some (mgr connected_once)"
    by (simp add: world_of_def)
  have e: "collection uuid_engine = \<lparr> coll_db = test_db 0, collectionName = ''users'' \<rparr>"
    using engine_uses_captured_collection [where cm = 0 and sch = UserSchema
        and opts = "\<lparr> useObjectId = None, collectionName_opt = ''users'' \<rparr>"
        and wc = "world_of connected_once three_users" and eng = uuid_engine,
        THEN conjunct1]
      engine_at_first_connection m c
    by auto
  have "bound_at [0 \<mapsto> mgr reconnected] (world_of connected_once three_users)
          (collection uuid_engine) (findById uuid_engine mem_driver (StrId ''u1''))"
    by (rule engine_uses_captured_collection [THEN conjunct2, THEN conjunct2, THEN conjunct1])
  then have f: "findById uuid_engine mem_driver (StrId ''u1'') (world_of reconnected three_users)
       = with_mgrs [0 \<mapsto> mgr reconnected]
           (findById uuid_engine mem_driver (StrId ''u1'') (world_of connected_once three_users))"
    unfolding bound_at_def b by blast
  show ?thesis
    using engine_at_first_connection c e f by blast
qed

end
